theory Spec2Isabelle
  imports Main "HOL-Library.Word"
begin

unbundle bit_operations_syntax

section \<open>File IO internal calls (mono/metadata/file-io.c)\<close>

text \<open>
  A shallow embedding of the internal calls of \<^verbatim>\<open>file-io.c\<close>. The C integers are
  machine words: \<^verbatim>\<open>guint32\<close> and \<^verbatim>\<open>gint32\<close> are 32-bit words (a signed value is
  its two's complement bit pattern, so \<^verbatim>\<open>-1\<close> is the word \<open>- 1\<close>), \<^verbatim>\<open>gint64\<close> is a
  64-bit word, a \<^verbatim>\<open>gunichar2\<close> string is a list of 16-bit words. A \<^verbatim>\<open>gboolean\<close>
  is an \<^verbatim>\<open>int\<close>, tested against 0; a \<^verbatim>\<open>MonoBoolean\<close> result is one byte, so
  \<^verbatim>\<open>return (ret)\<close> keeps the low byte of the \<^verbatim>\<open>gboolean\<close>.
\<close>

type_synonym guint32 = "32 word"
type_synonym gint32 = "32 word"
type_synonym gint64 = "64 word"
type_synonym gunichar2 = "16 word"
type_synonym gboolean = "32 word"
type_synonym MonoBoolean = "8 word"
type_synonym handle = nat

subsection \<open>Constants of the headers\<close>

text \<open>
  The enumeration values of \<^verbatim>\<open>file-io.h\<close> and the flags and error codes of the
  io-layer headers are not part of \<^verbatim>\<open>file-io.c\<close>. The functions below take them as a
  parameter \<open>h\<close>, a table from the constant's name to its value, so that every result
  holds for whatever values the headers give.
\<close>

type_synonym cname = string
type_synonym hdr = "cname \<Rightarrow> guint32"

abbreviation ERROR_SHARING_VIOLATION :: cname where "ERROR_SHARING_VIOLATION \<equiv> ''ERROR_SHARING_VIOLATION''"
abbreviation ERROR_FILE_NOT_FOUND :: cname where "ERROR_FILE_NOT_FOUND \<equiv> ''ERROR_FILE_NOT_FOUND''"
abbreviation INVALID_FILE_ATTRIBUTES :: cname where "INVALID_FILE_ATTRIBUTES \<equiv> ''INVALID_FILE_ATTRIBUTES''"
abbreviation INVALID_FILE_SIZE :: cname where "INVALID_FILE_SIZE \<equiv> ''INVALID_FILE_SIZE''"
abbreviation FILE_TYPE_UNKNOWN :: cname where "FILE_TYPE_UNKNOWN \<equiv> ''FILE_TYPE_UNKNOWN''"
abbreviation MAX_PATH :: cname where "MAX_PATH \<equiv> ''MAX_PATH''"
abbreviation FileMode_CreateNew :: cname where "FileMode_CreateNew \<equiv> ''FileMode_CreateNew''"
abbreviation FileMode_Create :: cname where "FileMode_Create \<equiv> ''FileMode_Create''"
abbreviation FileMode_Open :: cname where "FileMode_Open \<equiv> ''FileMode_Open''"
abbreviation FileMode_OpenOrCreate :: cname where "FileMode_OpenOrCreate \<equiv> ''FileMode_OpenOrCreate''"
abbreviation FileMode_Truncate :: cname where "FileMode_Truncate \<equiv> ''FileMode_Truncate''"
abbreviation FileMode_Append :: cname where "FileMode_Append \<equiv> ''FileMode_Append''"
abbreviation CREATE_NEW :: cname where "CREATE_NEW \<equiv> ''CREATE_NEW''"
abbreviation CREATE_ALWAYS :: cname where "CREATE_ALWAYS \<equiv> ''CREATE_ALWAYS''"
abbreviation OPEN_EXISTING :: cname where "OPEN_EXISTING \<equiv> ''OPEN_EXISTING''"
abbreviation OPEN_ALWAYS :: cname where "OPEN_ALWAYS \<equiv> ''OPEN_ALWAYS''"
abbreviation TRUNCATE_EXISTING :: cname where "TRUNCATE_EXISTING \<equiv> ''TRUNCATE_EXISTING''"
abbreviation FileAccess_Read :: cname where "FileAccess_Read \<equiv> ''FileAccess_Read''"
abbreviation FileAccess_Write :: cname where "FileAccess_Write \<equiv> ''FileAccess_Write''"
abbreviation FileAccess_ReadWrite :: cname where "FileAccess_ReadWrite \<equiv> ''FileAccess_ReadWrite''"
abbreviation GENERIC_READ :: cname where "GENERIC_READ \<equiv> ''GENERIC_READ''"
abbreviation GENERIC_WRITE :: cname where "GENERIC_WRITE \<equiv> ''GENERIC_WRITE''"
abbreviation FileShare_Read :: cname where "FileShare_Read \<equiv> ''FileShare_Read''"
abbreviation FileShare_Write :: cname where "FileShare_Write \<equiv> ''FileShare_Write''"
abbreviation FileShare_Delete :: cname where "FileShare_Delete \<equiv> ''FileShare_Delete''"
abbreviation FILE_SHARE_READ :: cname where "FILE_SHARE_READ \<equiv> ''FILE_SHARE_READ''"
abbreviation FILE_SHARE_WRITE :: cname where "FILE_SHARE_WRITE \<equiv> ''FILE_SHARE_WRITE''"
abbreviation FILE_SHARE_DELETE :: cname where "FILE_SHARE_DELETE \<equiv> ''FILE_SHARE_DELETE''"
abbreviation SeekOrigin_Begin :: cname where "SeekOrigin_Begin \<equiv> ''SeekOrigin_Begin''"
abbreviation SeekOrigin_Current :: cname where "SeekOrigin_Current \<equiv> ''SeekOrigin_Current''"
abbreviation SeekOrigin_End :: cname where "SeekOrigin_End \<equiv> ''SeekOrigin_End''"
abbreviation FILE_BEGIN :: cname where "FILE_BEGIN \<equiv> ''FILE_BEGIN''"
abbreviation FILE_CURRENT :: cname where "FILE_CURRENT \<equiv> ''FILE_CURRENT''"
abbreviation FILE_END :: cname where "FILE_END \<equiv> ''FILE_END''"
abbreviation FileAttributes_Encrypted :: cname where "FileAttributes_Encrypted \<equiv> ''FileAttributes_Encrypted''"
abbreviation FILE_ATTRIBUTE_ENCRYPTED :: cname where "FILE_ATTRIBUTE_ENCRYPTED \<equiv> ''FILE_ATTRIBUTE_ENCRYPTED''"
abbreviation FILE_ATTRIBUTE_NORMAL :: cname where "FILE_ATTRIBUTE_NORMAL \<equiv> ''FILE_ATTRIBUTE_NORMAL''"
abbreviation FILE_ATTRIBUTE_TEMPORARY :: cname where "FILE_ATTRIBUTE_TEMPORARY \<equiv> ''FILE_ATTRIBUTE_TEMPORARY''"
abbreviation FILE_ATTRIBUTE_DIRECTORY :: cname where "FILE_ATTRIBUTE_DIRECTORY \<equiv> ''FILE_ATTRIBUTE_DIRECTORY''"
abbreviation FileOptions_Encrypted :: cname where "FileOptions_Encrypted \<equiv> ''FileOptions_Encrypted''"
abbreviation FileOptions_DeleteOnClose :: cname where "FileOptions_DeleteOnClose \<equiv> ''FileOptions_DeleteOnClose''"
abbreviation FileOptions_SequentialScan :: cname where "FileOptions_SequentialScan \<equiv> ''FileOptions_SequentialScan''"
abbreviation FileOptions_RandomAccess :: cname where "FileOptions_RandomAccess \<equiv> ''FileOptions_RandomAccess''"
abbreviation FileOptions_Temporary :: cname where "FileOptions_Temporary \<equiv> ''FileOptions_Temporary''"
abbreviation FileOptions_Asynchronous :: cname where "FileOptions_Asynchronous \<equiv> ''FileOptions_Asynchronous''"
abbreviation FileOptions_WriteThrough :: cname where "FileOptions_WriteThrough \<equiv> ''FileOptions_WriteThrough''"
abbreviation FILE_FLAG_DELETE_ON_CLOSE :: cname where "FILE_FLAG_DELETE_ON_CLOSE \<equiv> ''FILE_FLAG_DELETE_ON_CLOSE''"
abbreviation FILE_FLAG_SEQUENTIAL_SCAN :: cname where "FILE_FLAG_SEQUENTIAL_SCAN \<equiv> ''FILE_FLAG_SEQUENTIAL_SCAN''"
abbreviation FILE_FLAG_RANDOM_ACCESS :: cname where "FILE_FLAG_RANDOM_ACCESS \<equiv> ''FILE_FLAG_RANDOM_ACCESS''"
abbreviation FILE_FLAG_OVERLAPPED :: cname where "FILE_FLAG_OVERLAPPED \<equiv> ''FILE_FLAG_OVERLAPPED''"
abbreviation FILE_FLAG_WRITE_THROUGH :: cname where "FILE_FLAG_WRITE_THROUGH \<equiv> ''FILE_FLAG_WRITE_THROUGH''"
abbreviation FILE_FLAG_BACKUP_SEMANTICS :: cname where "FILE_FLAG_BACKUP_SEMANTICS \<equiv> ''FILE_FLAG_BACKUP_SEMANTICS''"
abbreviation REPLACEFILE_WRITE_THROUGH :: cname where "REPLACEFILE_WRITE_THROUGH \<equiv> ''REPLACEFILE_WRITE_THROUGH''"
abbreviation REPLACEFILE_IGNORE_MERGE_ERRORS :: cname where "REPLACEFILE_IGNORE_MERGE_ERRORS \<equiv> ''REPLACEFILE_IGNORE_MERGE_ERRORS''"

text \<open>
  Modelled from the spec: the value of \<^verbatim>\<open>ERROR_SUCCESS\<close>, which the headers define and
  the specification gives as 0 (``0 (SUCCESS) on success'').
\<close>

definition ERROR_SUCCESS :: gint32 where
  "ERROR_SUCCESS = 0"

text \<open>
  Modelled from the spec: the value of \<^verbatim>\<open>INVALID_SET_FILE_POINTER\<close>, which the headers
  define and the statement about Seek (C10) gives as the 32-bit word 0xFFFFFFFF.
\<close>

definition INVALID_SET_FILE_POINTER :: guint32 where
  "INVALID_SET_FILE_POINTER = 0xFFFFFFFF"

text \<open>
  A table with the values of the Windows SDK and of \<^verbatim>\<open>file-io.h\<close>, for evaluating
  the functions on concrete inputs.
\<close>

definition sdk_table :: "(cname \<times> guint32) list" where
  "sdk_table =
    [(ERROR_SHARING_VIOLATION, 32), (ERROR_FILE_NOT_FOUND, 2),
     (INVALID_FILE_ATTRIBUTES, 0xFFFFFFFF), (INVALID_FILE_SIZE, 0xFFFFFFFF),
     (FILE_TYPE_UNKNOWN, 0), (MAX_PATH, 260),
     (FileMode_CreateNew, 1), (FileMode_Create, 2), (FileMode_Open, 3),
     (FileMode_OpenOrCreate, 4), (FileMode_Truncate, 5), (FileMode_Append, 6),
     (CREATE_NEW, 1), (CREATE_ALWAYS, 2), (OPEN_EXISTING, 3), (OPEN_ALWAYS, 4),
     (TRUNCATE_EXISTING, 5),
     (FileAccess_Read, 1), (FileAccess_Write, 2), (FileAccess_ReadWrite, 3),
     (GENERIC_READ, 0x80000000), (GENERIC_WRITE, 0x40000000),
     (FileShare_Read, 1), (FileShare_Write, 2), (FileShare_Delete, 4),
     (FILE_SHARE_READ, 1), (FILE_SHARE_WRITE, 2), (FILE_SHARE_DELETE, 4),
     (SeekOrigin_Begin, 0), (SeekOrigin_Current, 1), (SeekOrigin_End, 2),
     (FILE_BEGIN, 0), (FILE_CURRENT, 1), (FILE_END, 2),
     (FileAttributes_Encrypted, 0x4000), (FILE_ATTRIBUTE_ENCRYPTED, 0x4000),
     (FILE_ATTRIBUTE_NORMAL, 0x80), (FILE_ATTRIBUTE_TEMPORARY, 0x100),
     (FILE_ATTRIBUTE_DIRECTORY, 0x10),
     (FileOptions_Encrypted, 0x4000), (FileOptions_DeleteOnClose, 0x04000000),
     (FileOptions_SequentialScan, 0x08000000), (FileOptions_RandomAccess, 0x10000000),
     (FileOptions_Temporary, 1), (FileOptions_Asynchronous, 0x40000000),
     (FileOptions_WriteThrough, 0x80000000),
     (FILE_FLAG_DELETE_ON_CLOSE, 0x04000000), (FILE_FLAG_SEQUENTIAL_SCAN, 0x08000000),
     (FILE_FLAG_RANDOM_ACCESS, 0x10000000), (FILE_FLAG_OVERLAPPED, 0x40000000),
     (FILE_FLAG_WRITE_THROUGH, 0x80000000), (FILE_FLAG_BACKUP_SEMANTICS, 0x02000000),
     (REPLACEFILE_WRITE_THROUGH, 1), (REPLACEFILE_IGNORE_MERGE_ERRORS, 2)]"

definition sdk :: hdr where
  "sdk n = (case map_of sdk_table n of Some v \<Rightarrow> v | None \<Rightarrow> 0)"

subsection \<open>Conversion functions\<close>

definition convert_mode :: "hdr \<Rightarrow> guint32 \<Rightarrow> guint32" where
  "convert_mode h mono_mode =
    (if mono_mode = h FileMode_CreateNew then h CREATE_NEW
     else if mono_mode = h FileMode_Create then h CREATE_ALWAYS
     else if mono_mode = h FileMode_Open then h OPEN_EXISTING
     else if mono_mode = h FileMode_OpenOrCreate then h OPEN_ALWAYS
     else if mono_mode = h FileMode_Truncate then h TRUNCATE_EXISTING
     else if mono_mode = h FileMode_Append then h OPEN_ALWAYS
     else h OPEN_EXISTING)"

definition convert_access :: "hdr \<Rightarrow> guint32 \<Rightarrow> guint32" where
  "convert_access h mono_access =
    (if mono_access = h FileAccess_Read then h GENERIC_READ
     else if mono_access = h FileAccess_Write then h GENERIC_WRITE
     else if mono_access = h FileAccess_ReadWrite then h GENERIC_READ OR h GENERIC_WRITE
     else h GENERIC_READ)"

text \<open>
  \<^verbatim>\<open>convert_share\<close>: three independent tests that each add a native bit, then the
  check for a bit outside the three flags, which resets the result to 0.
\<close>

definition convert_share :: "hdr \<Rightarrow> guint32 \<Rightarrow> guint32" where
  "convert_share h mono_share =
    (let share = 0;
         share = (if mono_share AND h FileShare_Read \<noteq> 0
                  then share OR h FILE_SHARE_READ else share);
         share = (if mono_share AND h FileShare_Write \<noteq> 0
                  then share OR h FILE_SHARE_WRITE else share);
         share = (if mono_share AND h FileShare_Delete \<noteq> 0
                  then share OR h FILE_SHARE_DELETE else share);
         share = (if mono_share AND
                       NOT (h FileShare_Read OR h FileShare_Write OR h FileShare_Delete) \<noteq> 0
                  then 0 else share)
     in share)"

definition convert_seekorigin :: "hdr \<Rightarrow> guint32 \<Rightarrow> guint32" where
  "convert_seekorigin h origin =
    (if origin = h SeekOrigin_Begin then h FILE_BEGIN
     else if origin = h SeekOrigin_Current then h FILE_CURRENT
     else if origin = h SeekOrigin_End then h FILE_END
     else h FILE_CURRENT)"

record FILETIME =
  dwLowDateTime :: guint32
  dwHighDateTime :: guint32

definition convert_filetime :: "FILETIME \<Rightarrow> gint64" where
  "convert_filetime filetime =
    (let ticks = (ucast (dwHighDateTime filetime) :: 64 word);
         ticks = push_bit 32 ticks;
         ticks = ticks + ucast (dwLowDateTime filetime)
     in ticks)"

record WIN32_FILE_ATTRIBUTE_DATA =
  dwFileAttributes :: guint32
  ftCreationTime :: FILETIME
  ftLastAccessTime :: FILETIME
  ftLastWriteTime :: FILETIME
  nFileSizeHigh :: guint32
  nFileSizeLow :: guint32

record MonoIOStat =
  stat_name :: "gunichar2 list option"
  stat_attributes :: gint32
  stat_length :: gint64
  stat_creation_time :: gint64
  stat_last_access_time :: gint64
  stat_last_write_time :: gint64

text \<open>The characters of a NUL-terminated string: those before the first 0.\<close>

definition c_string :: "gunichar2 list \<Rightarrow> gunichar2 list" where
  "c_string cs = takeWhile (\<lambda>c. c \<noteq> 0) cs"

definition file_size :: "guint32 \<Rightarrow> guint32 \<Rightarrow> gint64" where
  "file_size size_high size_low = push_bit 32 (ucast size_high) OR ucast size_low"

definition convert_win32_file_attribute_data ::
  "WIN32_FILE_ATTRIBUTE_DATA \<Rightarrow> gunichar2 list \<Rightarrow> MonoIOStat" where
  "convert_win32_file_attribute_data data nm =
    \<lparr>stat_name = Some (c_string nm),
     stat_attributes = dwFileAttributes data,
     stat_length = file_size (nFileSizeHigh data) (nFileSizeLow data),
     stat_creation_time = convert_filetime (ftCreationTime data),
     stat_last_access_time = convert_filetime (ftLastAccessTime data),
     stat_last_write_time = convert_filetime (ftLastWriteTime data)\<rparr>"

definition convert_attrs :: "hdr \<Rightarrow> guint32 \<Rightarrow> guint32" where
  "convert_attrs h attrs =
    (if attrs AND h FileAttributes_Encrypted \<noteq> 0
     then attrs OR h FILE_ATTRIBUTE_ENCRYPTED else attrs)"

text \<open>
  The way back from a 64-bit value to two 32-bit words, as the source writes it.
  For a length or a position (\<^verbatim>\<open>Seek\<close>, \<^verbatim>\<open>SetLength\<close>, \<^verbatim>\<open>Lock\<close>) the low word is
  \<^verbatim>\<open>x & 0xFFFFFFFF\<close> and the high word is \<^verbatim>\<open>x >> 32\<close>, an arithmetic shift of the
  signed value cut to 32 bits. For a timestamp (\<^verbatim>\<open>SetFileTime\<close>) the address of the
  \<^verbatim>\<open>gint64\<close> is read as a \<^verbatim>\<open>FILETIME\<close>, whose first field is the low word on the
  little-endian targets of the io-layer.
\<close>

definition low_word :: "gint64 \<Rightarrow> guint32" where
  "low_word x = ucast (x AND 0xFFFFFFFF)"

definition high_word :: "gint64 \<Rightarrow> guint32" where
  "high_word x = ucast (signed_drop_bit 32 x)"

definition filetime_of :: "gint64 \<Rightarrow> FILETIME" where
  "filetime_of t = \<lparr>dwLowDateTime = ucast t, dwHighDateTime = ucast (drop_bit 32 t)\<rparr>"

subsection \<open>The native layer\<close>

text \<open>
  \<^verbatim>\<open>WIN32_FIND_DATA\<close> carries the fields of \<^verbatim>\<open>WIN32_FILE_ATTRIBUTE_DATA\<close> and
  the entry's name, a NUL-terminated array of \<^verbatim>\<open>gunichar2\<close>.
\<close>

record WIN32_FIND_DATA = WIN32_FILE_ATTRIBUTE_DATA +
  cFileName :: "gunichar2 list"

text \<open>
  The calls into the operating system, with the arguments the source passes. The
  buffers of \<^verbatim>\<open>ReadFile\<close> and \<^verbatim>\<open>WriteFile\<close> are named by their offset in the
  managed array; the bytes moved are not modelled.
\<close>

datatype native_call =
    GetFileAttributes "gunichar2 list"
  | GetFileAttributesEx "gunichar2 list"
  | FindFirstFile "gunichar2 list"
  | FindNextFile
  | FindClose
  | CreateDirectory "gunichar2 list"
  | RemoveDirectory "gunichar2 list"
  | GetCurrentDirectory guint32
  | SetCurrentDirectory "gunichar2 list"
  | MoveFile "gunichar2 list" "gunichar2 list"
  | ReplaceFile "gunichar2 list option" "gunichar2 list option" "gunichar2 list option" guint32
  | CopyFile "gunichar2 list" "gunichar2 list" bool
  | DeleteFile "gunichar2 list"
  | SetFileAttributes "gunichar2 list" guint32
  | GetFileType handle
  | CreateFile "gunichar2 list" guint32 guint32 guint32 guint32
  | CloseHandle handle
  | ReadFile handle gint32 gint32
  | WriteFile handle gint32 gint32
  | SetFilePointer handle gint32 gint32 guint32
  | FlushFileBuffers handle
  | GetFileSize handle
  | SetEndOfFile handle
  | SetFileTime handle "FILETIME option" "FILETIME option" "FILETIME option"
  | LockFile handle guint32 guint32 guint32 guint32
  | UnlockFile handle guint32 guint32 guint32 guint32

text \<open>
  What an internal call does that a caller or the system can observe, in order: a
  call into the operating system, or a store to the \<^verbatim>\<open>gint32 *error\<close> parameter.
\<close>

datatype event = Native native_call | Error_write gint32

text \<open>
  The state threaded through an internal call: the thread's last-error value, which
  \<^verbatim>\<open>GetLastError\<close> reads, the cell \<^verbatim>\<open>*error\<close> of the caller, and the events so far.
\<close>

record world =
  last_error :: guint32
  error :: gint32
  log :: "event list"

text \<open>
  What a call into the operating system hands back. Each call uses the fields of
  its own signature: \<open>gbool\<close> is a \<^verbatim>\<open>BOOL\<close> result, \<open>dword\<close> a \<^verbatim>\<open>DWORD\<close> result,
  \<open>high\<close> the value left in an in/out high-word parameter, \<open>attr_data\<close> the
  structure \<^verbatim>\<open>GetFileAttributesEx\<close> fills, \<open>opened\<close> the handle of
  \<^verbatim>\<open>CreateFile\<close> (\<open>None\<close> is \<^verbatim>\<open>INVALID_HANDLE_VALUE\<close>), \<open>chars\<close> the buffer
  \<^verbatim>\<open>GetCurrentDirectory\<close> fills. \<open>found\<close> is the enumeration \<^verbatim>\<open>FindFirstFile\<close>
  opens: the entry it returns followed by the entries \<^verbatim>\<open>FindNextFile\<close> will deliver
  before it reports exhaustion; the empty list is \<^verbatim>\<open>INVALID_HANDLE_VALUE\<close>.
  \<open>err\<close> is the thread's last-error value when the call returns.

  \<open>succeeded\<close> tells whether the call did what it was asked to do. The code never
  sees it: it sees the result. For \<^verbatim>\<open>SetFilePointer\<close>, \<^verbatim>\<open>GetFileSize\<close> and
  \<^verbatim>\<open>GetFileType\<close> the value that reports a failure is also a result of a call that
  succeeded, so the result does not determine \<open>succeeded\<close>.
\<close>

record reply =
  succeeded :: bool
  gbool :: gboolean
  dword :: guint32
  high :: gint32
  attr_data :: WIN32_FILE_ATTRIBUTE_DATA
  found :: "WIN32_FIND_DATA list"
  opened :: "handle option"
  chars :: "gunichar2 list"
  err :: guint32

text \<open>A \<^verbatim>\<open>BOOL\<close> result is true when it is not 0 (\<^verbatim>\<open>FALSE\<close>).\<close>

definition ok :: "reply \<Rightarrow> bool" where
  "ok r = (gbool r \<noteq> 0)"

text \<open>
  The operating system is a parameter: any function from the call and the state
  in which it is made (which holds the whole history) to what the call hands back.
\<close>

type_synonym os = "native_call \<Rightarrow> world \<Rightarrow> reply"

definition native :: "os \<Rightarrow> native_call \<Rightarrow> world \<Rightarrow> reply \<times> world" where
  "native sys c w =
    (let r = sys c w in (r, w\<lparr>last_error := err r, log := log w @ [Native c]\<rparr>))"

definition GetLastError :: "world \<Rightarrow> guint32" where
  "GetLastError w = last_error w"

definition set_error :: "gint32 \<Rightarrow> world \<Rightarrow> world" where
  "set_error v w = w\<lparr>error := v, log := log w @ [Error_write v]\<rparr>"

subsection \<open>Path remapping\<close>

text \<open>
  \<^verbatim>\<open>g_RemapPathFunc\<close> is \<open>None\<close> until a function is registered. The registered
  function is given the managed string, or \<open>None\<close> for a null string, and answers
  \<open>None\<close> where it reports size 0 (no remapping) and the remapped path otherwise;
  the conversions between the managed string and the UTF-8 buffer are not modelled.
  It is a callback of the host, not a call into the operating system, and leaves no
  event.

  \<open>get_remapped_string\<close> is \<^verbatim>\<open>get_remapped_path\<close> of the source on a string that
  may be null, as \<^verbatim>\<open>ReplaceFile\<close> passes; \<open>get_remapped_path\<close> is the same on a
  string that is not null, as every other caller passes, and gives the characters
  of the result.
\<close>

type_synonym remapper = "(gunichar2 list option \<Rightarrow> gunichar2 list option) option"

definition get_remapped_string ::
  "remapper \<Rightarrow> gunichar2 list option \<Rightarrow> gunichar2 list option" where
  "get_remapped_string g_RemapPathFunc path =
    (case g_RemapPathFunc of
       None \<Rightarrow> path
     | Some func \<Rightarrow> (case func path of None \<Rightarrow> path | Some new_path \<Rightarrow> Some new_path))"

definition get_remapped_path :: "remapper \<Rightarrow> gunichar2 list \<Rightarrow> gunichar2 list" where
  "get_remapped_path g_RemapPathFunc path =
    (case get_remapped_string g_RemapPathFunc (Some path) of
       None \<Rightarrow> path
     | Some new_path \<Rightarrow> new_path)"

subsection \<open>Attribute queries with the FindFirstFile fallback\<close>

definition get_file_attributes ::
  "hdr \<Rightarrow> os \<Rightarrow> gunichar2 list \<Rightarrow> world \<Rightarrow> guint32 \<times> world" where
  "get_file_attributes h sys path w =
    (let (r, w1) = native sys (GetFileAttributes path) w;
         res = dword r
     in if res \<noteq> - 1 then (res, w1)
        else let error = GetLastError w1
             in if error \<noteq> h ERROR_SHARING_VIOLATION then (res, w1)
                else let (f, w2) = native sys (FindFirstFile path) w1
                     in case found f of
                          [] \<Rightarrow> (res, w2)
                        | find_data # pending \<Rightarrow>
                            let (c, w3) = native sys FindClose w2
                            in (dwFileAttributes find_data, w3))"

definition get_file_attributes_ex ::
  "hdr \<Rightarrow> os \<Rightarrow> gunichar2 list \<Rightarrow> WIN32_FILE_ATTRIBUTE_DATA \<Rightarrow> world
     \<Rightarrow> (bool \<times> WIN32_FILE_ATTRIBUTE_DATA) \<times> world" where
  "get_file_attributes_ex h sys path data w =
    (let (r, w1) = native sys (GetFileAttributesEx path) w;
         res = gbool r
     in if res \<noteq> 0 then ((True, attr_data r), w1)
        else let error = GetLastError w1
             in if error \<noteq> h ERROR_SHARING_VIOLATION then ((False, data), w1)
                else let (f, w2) = native sys (FindFirstFile path) w1
                     in case found f of
                          [] \<Rightarrow> ((False, data), w2)
                        | find_data # pending \<Rightarrow>
                            let (c, w3) = native sys FindClose w2
                            in ((True,
                                 data\<lparr>dwFileAttributes := dwFileAttributes find_data,
                                      ftCreationTime := ftCreationTime find_data,
                                      ftLastAccessTime := ftLastAccessTime find_data,
                                      ftLastWriteTime := ftLastWriteTime find_data,
                                      nFileSizeHigh := nFileSizeHigh find_data,
                                      nFileSizeLow := nFileSizeLow find_data\<rparr>), w3))"

definition ves_icall_System_IO_MonoIO_GetFileAttributes ::
  "hdr \<Rightarrow> remapper \<Rightarrow> os \<Rightarrow> gunichar2 list \<Rightarrow> world \<Rightarrow> gint32 \<times> world" where
  "ves_icall_System_IO_MonoIO_GetFileAttributes h hook sys path w =
    (let path = get_remapped_path hook path;
         w = set_error ERROR_SUCCESS w;
         (ret, w) = get_file_attributes h sys path w
     in if ret = - 1 then (ret, set_error (GetLastError w) w) else (ret, w))"

text \<open>The record \<^verbatim>\<open>memset\<close> leaves: every field 0, the name a null reference.\<close>

definition zero_stat :: MonoIOStat where
  "zero_stat =
    \<lparr>stat_name = None, stat_attributes = 0, stat_length = 0, stat_creation_time = 0,
     stat_last_access_time = 0, stat_last_write_time = 0\<rparr>"

text \<open>
  \<^verbatim>\<open>GetFileStat\<close>: \<open>data\<close> is the local structure of the C function, whose
  first contents are whatever the stack holds.
\<close>

definition ves_icall_System_IO_MonoIO_GetFileStat ::
  "hdr \<Rightarrow> remapper \<Rightarrow> os \<Rightarrow> gunichar2 list \<Rightarrow> WIN32_FILE_ATTRIBUTE_DATA \<Rightarrow> world
     \<Rightarrow> (bool \<times> MonoIOStat) \<times> world" where
  "ves_icall_System_IO_MonoIO_GetFileStat h hook sys path data w =
    (let path = get_remapped_path hook path;
         w = set_error ERROR_SUCCESS w;
         ((result, data), w) = get_file_attributes_ex h sys path data w
     in if result
        then ((result, convert_win32_file_attribute_data data path), w)
        else ((result, zero_stat), set_error (GetLastError w) w))"

subsection \<open>Directory enumeration\<close>

text \<open>
  The string functions of glib and of the runtime that the enumeration calls are
  not part of \<^verbatim>\<open>file-io.c\<close>; they are a parameter. \<^verbatim>\<open>g_utf16_to_utf8\<close> answers
  \<open>None\<close> where the C function returns \<^verbatim>\<open>NULL\<close>.
\<close>

record strenc =
  g_utf16_to_utf8 :: "gunichar2 list \<Rightarrow> string option"
  mono_string_to_utf8 :: "gunichar2 list \<Rightarrow> string"
  g_build_filename :: "string \<Rightarrow> string \<Rightarrow> string"

text \<open>
  \<^verbatim>\<open>cFileName [i]\<close>: the array holds the name and is 0 from its terminator on.
\<close>

definition char_at :: "gunichar2 list \<Rightarrow> nat \<Rightarrow> gunichar2" where
  "char_at cs i = (if i < length cs then cs ! i else 0)"

definition is_dot_entry :: "WIN32_FIND_DATA \<Rightarrow> bool" where
  "is_dot_entry data =
    ((char_at (cFileName data) 0 = 0x2E \<and> char_at (cFileName data) 1 = 0) \<or>
     (char_at (cFileName data) 0 = 0x2E \<and> char_at (cFileName data) 1 = 0x2E \<and>
      char_at (cFileName data) 2 = 0))"

text \<open>
  The body of the \<^verbatim>\<open>do\<close> loop for one entry: \<^verbatim>\<open>continue\<close> for a dot entry,
  the attribute test, \<^verbatim>\<open>continue\<close> where the name does not convert, and the
  full name appended to \<^verbatim>\<open>names\<close>.
\<close>

definition collect_entry ::
  "strenc \<Rightarrow> guint32 \<Rightarrow> guint32 \<Rightarrow> string \<Rightarrow> WIN32_FIND_DATA \<Rightarrow> string list \<Rightarrow> string list" where
  "collect_entry se attr_mask attrs utf8_path data names =
    (if is_dot_entry data then names
     else if dwFileAttributes data AND attr_mask = attrs
     then (case g_utf16_to_utf8 se (c_string (cFileName data)) of
             None \<Rightarrow> names
           | Some utf8_result \<Rightarrow> names @ [g_build_filename se utf8_path utf8_result])
     else names)"

text \<open>
  \<^verbatim>\<open>do { ... } while (FindNextFile (find_handle, &data))\<close>. The find handle is
  the list of the entries still to come: \<^verbatim>\<open>FindNextFile\<close> on the empty list
  returns \<^verbatim>\<open>FALSE\<close> and ends the loop.
\<close>

fun find_loop ::
  "strenc \<Rightarrow> os \<Rightarrow> guint32 \<Rightarrow> guint32 \<Rightarrow> string \<Rightarrow> WIN32_FIND_DATA \<Rightarrow> WIN32_FIND_DATA list
     \<Rightarrow> string list \<Rightarrow> world \<Rightarrow> string list \<times> world" where
  "find_loop se sys attr_mask attrs utf8_path data [] names w =
    (collect_entry se attr_mask attrs utf8_path data names, snd (native sys FindNextFile w))"
| "find_loop se sys attr_mask attrs utf8_path data (next_data # pending) names w =
    find_loop se sys attr_mask attrs utf8_path next_data pending
      (collect_entry se attr_mask attrs utf8_path data names) (snd (native sys FindNextFile w))"

text \<open>
  The result is \<open>None\<close> for \<^verbatim>\<open>NULL\<close> and otherwise the full names, in UTF-8,
  of which the array holds the managed strings (\<^verbatim>\<open>mono_string_new\<close>).
\<close>

definition ves_icall_System_IO_MonoIO_GetFileSystemEntries ::
  "hdr \<Rightarrow> remapper \<Rightarrow> strenc \<Rightarrow> os \<Rightarrow> gunichar2 list \<Rightarrow> gunichar2 list \<Rightarrow> guint32 \<Rightarrow> guint32
     \<Rightarrow> world \<Rightarrow> string list option \<times> world" where
  "ves_icall_System_IO_MonoIO_GetFileSystemEntries h hook se sys path path_with_pattern
      attrs attr_mask w =
    (let path = get_remapped_path hook path;
         path_with_pattern = get_remapped_path hook path_with_pattern;
         w = set_error ERROR_SUCCESS w;
         attr_mask = convert_attrs h attr_mask;
         (f, w) = native sys (FindFirstFile path_with_pattern) w
     in case found f of
          [] \<Rightarrow>
            let find_error = GetLastError w
            in if find_error = h ERROR_FILE_NOT_FOUND then (Some [], w)
               else (None, set_error find_error w)
        | data # pending \<Rightarrow>
            let utf8_path = mono_string_to_utf8 se path;
                (names, w) = find_loop se sys attr_mask attrs utf8_path data pending [] w;
                (c, w) = native sys FindClose w
            in if gbool c = 0 then (None, set_error (GetLastError w) w)
               else (Some names, w))"

subsection \<open>Operations on paths\<close>

definition ves_icall_System_IO_MonoIO_CreateDirectory ::
  "remapper \<Rightarrow> os \<Rightarrow> gunichar2 list \<Rightarrow> world \<Rightarrow> MonoBoolean \<times> world" where
  "ves_icall_System_IO_MonoIO_CreateDirectory hook sys path w =
    (let path = get_remapped_path hook path;
         w = set_error ERROR_SUCCESS w;
         (r, w) = native sys (CreateDirectory path) w;
         ret = gbool r
     in if ret = 0 then (ucast ret, set_error (GetLastError w) w) else (ucast ret, w))"

definition ves_icall_System_IO_MonoIO_RemoveDirectory ::
  "remapper \<Rightarrow> os \<Rightarrow> gunichar2 list \<Rightarrow> world \<Rightarrow> MonoBoolean \<times> world" where
  "ves_icall_System_IO_MonoIO_RemoveDirectory hook sys path w =
    (let path = get_remapped_path hook path;
         w = set_error ERROR_SUCCESS w;
         (r, w) = native sys (RemoveDirectory path) w;
         ret = gbool r
     in if ret = 0 then (ucast ret, set_error (GetLastError w) w) else (ucast ret, w))"

text \<open>
  \<^verbatim>\<open>GetCurrentDirectory\<close>: \<open>res_len\<close> and \<open>len\<close> are \<^verbatim>\<open>int\<close>, compared as
  signed values; after a second call \<open>res_len\<close> is the truth value of the
  comparison with the length asked for.
\<close>

definition ves_icall_System_IO_MonoIO_GetCurrentDirectory ::
  "hdr \<Rightarrow> os \<Rightarrow> world \<Rightarrow> gunichar2 list option \<times> world" where
  "ves_icall_System_IO_MonoIO_GetCurrentDirectory h sys w =
    (let len = h MAX_PATH + 1;
         w = set_error ERROR_SUCCESS w;
         (r, w) = native sys (GetCurrentDirectory len) w;
         res_len = dword r;
         buf = chars r;
         (res_len, buf, w) =
           (if len <s res_len
            then let old_res_len = res_len;
                     (r2, w) = native sys (GetCurrentDirectory res_len) w
                 in (if dword r2 = old_res_len then 1 else 0, chars r2, w)
            else (res_len, buf, w))
     in if res_len \<noteq> 0 then (Some (c_string buf), w)
        else (None, set_error (GetLastError w) w))"

definition ves_icall_System_IO_MonoIO_SetCurrentDirectory ::
  "remapper \<Rightarrow> os \<Rightarrow> gunichar2 list \<Rightarrow> world \<Rightarrow> MonoBoolean \<times> world" where
  "ves_icall_System_IO_MonoIO_SetCurrentDirectory hook sys path w =
    (let path = get_remapped_path hook path;
         w = set_error ERROR_SUCCESS w;
         (r, w) = native sys (SetCurrentDirectory path) w;
         ret = gbool r
     in if ret = 0 then (ucast ret, set_error (GetLastError w) w) else (ucast ret, w))"

definition ves_icall_System_IO_MonoIO_MoveFile ::
  "remapper \<Rightarrow> os \<Rightarrow> gunichar2 list \<Rightarrow> gunichar2 list \<Rightarrow> world \<Rightarrow> MonoBoolean \<times> world" where
  "ves_icall_System_IO_MonoIO_MoveFile hook sys path dest w =
    (let path = get_remapped_path hook path;
         dest = get_remapped_path hook dest;
         w = set_error ERROR_SUCCESS w;
         (r, w) = native sys (MoveFile path dest) w;
         ret = gbool r
     in if ret = 0 then (ucast ret, set_error (GetLastError w) w) else (ucast ret, w))"

text \<open>
  \<^verbatim>\<open>ReplaceFile\<close> accepts null strings (\<open>None\<close>): each of the three is remapped,
  null or not, and passed on as the characters of the result or as a null pointer.
\<close>

definition ves_icall_System_IO_MonoIO_ReplaceFile ::
  "hdr \<Rightarrow> remapper \<Rightarrow> os \<Rightarrow> gunichar2 list option \<Rightarrow> gunichar2 list option
     \<Rightarrow> gunichar2 list option \<Rightarrow> bool \<Rightarrow> world \<Rightarrow> MonoBoolean \<times> world" where
  "ves_icall_System_IO_MonoIO_ReplaceFile h hook sys sourceFileName destinationFileName
      destinationBackupFileName ignoreMetadataErrors w =
    (let replaceFlags = h REPLACEFILE_WRITE_THROUGH;
         sourceFileName = get_remapped_string hook sourceFileName;
         destinationFileName = get_remapped_string hook destinationFileName;
         destinationBackupFileName = get_remapped_string hook destinationBackupFileName;
         w = set_error ERROR_SUCCESS w;
         replaceFlags = (if ignoreMetadataErrors
                         then replaceFlags OR h REPLACEFILE_IGNORE_MERGE_ERRORS
                         else replaceFlags);
         (r, w) = native sys (ReplaceFile destinationFileName sourceFileName
                                destinationBackupFileName replaceFlags) w;
         ret = gbool r
     in if ret = 0 then (ucast ret, set_error (GetLastError w) w) else (ucast ret, w))"

definition ves_icall_System_IO_MonoIO_CopyFile ::
  "remapper \<Rightarrow> os \<Rightarrow> gunichar2 list \<Rightarrow> gunichar2 list \<Rightarrow> bool \<Rightarrow> world \<Rightarrow> MonoBoolean \<times> world" where
  "ves_icall_System_IO_MonoIO_CopyFile hook sys path dest overwrite w =
    (let path = get_remapped_path hook path;
         dest = get_remapped_path hook dest;
         w = set_error ERROR_SUCCESS w;
         (r, w) = native sys (CopyFile path dest (\<not> overwrite)) w;
         ret = gbool r
     in if ret = 0 then (ucast ret, set_error (GetLastError w) w) else (ucast ret, w))"

definition ves_icall_System_IO_MonoIO_DeleteFile ::
  "remapper \<Rightarrow> os \<Rightarrow> gunichar2 list \<Rightarrow> world \<Rightarrow> MonoBoolean \<times> world" where
  "ves_icall_System_IO_MonoIO_DeleteFile hook sys path w =
    (let path = get_remapped_path hook path;
         w = set_error ERROR_SUCCESS w;
         (r, w) = native sys (DeleteFile path) w;
         ret = gbool r
     in if ret = 0 then (ucast ret, set_error (GetLastError w) w) else (ucast ret, w))"

definition ves_icall_System_IO_MonoIO_SetFileAttributes ::
  "hdr \<Rightarrow> remapper \<Rightarrow> os \<Rightarrow> gunichar2 list \<Rightarrow> gint32 \<Rightarrow> world \<Rightarrow> MonoBoolean \<times> world" where
  "ves_icall_System_IO_MonoIO_SetFileAttributes h hook sys path attrs w =
    (let path = get_remapped_path hook path;
         w = set_error ERROR_SUCCESS w;
         (r, w) = native sys (SetFileAttributes path (convert_attrs h attrs)) w;
         ret = gbool r
     in if ret = 0 then (ucast ret, set_error (GetLastError w) w) else (ucast ret, w))"

subsection \<open>Operations on handles\<close>

definition ves_icall_System_IO_MonoIO_GetFileType ::
  "hdr \<Rightarrow> os \<Rightarrow> handle \<Rightarrow> world \<Rightarrow> gint32 \<times> world" where
  "ves_icall_System_IO_MonoIO_GetFileType h sys handle w =
    (let w = set_error ERROR_SUCCESS w;
         (r, w) = native sys (GetFileType handle) w;
         ret = dword r
     in if ret = h FILE_TYPE_UNKNOWN then (ret, set_error (GetLastError w) w) else (ret, w))"

text \<open>The attribute and flag word \<^verbatim>\<open>Open\<close> computes from the options.\<close>

definition open_attributes :: "hdr \<Rightarrow> gint32 \<Rightarrow> guint32" where
  "open_attributes h options =
    (if options \<noteq> 0
     then let attributes = (if options AND h FileOptions_Encrypted \<noteq> 0
                            then h FILE_ATTRIBUTE_ENCRYPTED else h FILE_ATTRIBUTE_NORMAL);
              attributes = (if options AND h FileOptions_DeleteOnClose \<noteq> 0
                            then attributes OR h FILE_FLAG_DELETE_ON_CLOSE else attributes);
              attributes = (if options AND h FileOptions_SequentialScan \<noteq> 0
                            then attributes OR h FILE_FLAG_SEQUENTIAL_SCAN else attributes);
              attributes = (if options AND h FileOptions_RandomAccess \<noteq> 0
                            then attributes OR h FILE_FLAG_RANDOM_ACCESS else attributes);
              attributes = (if options AND h FileOptions_Temporary \<noteq> 0
                            then attributes OR h FILE_ATTRIBUTE_TEMPORARY else attributes);
              attributes = (if options AND h FileOptions_Asynchronous \<noteq> 0
                            then attributes OR h FILE_FLAG_OVERLAPPED else attributes);
              attributes = (if options AND h FileOptions_WriteThrough \<noteq> 0
                            then attributes OR h FILE_FLAG_WRITE_THROUGH else attributes)
          in attributes
     else h FILE_ATTRIBUTE_NORMAL)"

definition ves_icall_System_IO_MonoIO_Open ::
  "hdr \<Rightarrow> remapper \<Rightarrow> os \<Rightarrow> gunichar2 list \<Rightarrow> gint32 \<Rightarrow> gint32 \<Rightarrow> gint32 \<Rightarrow> gint32 \<Rightarrow> world
     \<Rightarrow> handle option \<times> world" where
  "ves_icall_System_IO_MonoIO_Open h hook sys filename mode access_mode share options w =
    (let filename = get_remapped_path hook filename;
         w = set_error ERROR_SUCCESS w;
         attributes = open_attributes h options;
         (attrs, w) = get_file_attributes h sys filename w;
         attributes = (if attrs \<noteq> h INVALID_FILE_ATTRIBUTES
                       then (if attrs AND h FILE_ATTRIBUTE_DIRECTORY \<noteq> 0
                             then attributes OR h FILE_FLAG_BACKUP_SEMANTICS else attributes)
                       else attributes);
         (r, w) = native sys (CreateFile filename (convert_access h access_mode)
                                (convert_share h share) (convert_mode h mode) attributes) w;
         ret = opened r
     in if ret = None then (ret, set_error (GetLastError w) w) else (ret, w))"

definition ves_icall_System_IO_MonoIO_Close ::
  "os \<Rightarrow> handle \<Rightarrow> world \<Rightarrow> MonoBoolean \<times> world" where
  "ves_icall_System_IO_MonoIO_Close sys handle w =
    (let w = set_error ERROR_SUCCESS w;
         (r, w) = native sys (CloseHandle handle) w;
         ret = gbool r
     in if ret = 0 then (ucast ret, set_error (GetLastError w) w) else (ucast ret, w))"

text \<open>
  The managed array: \<^verbatim>\<open>mono_array_length\<close> reads its \<^verbatim>\<open>max_length\<close>, an unsigned
  32-bit value, so the guard compares the \<^verbatim>\<open>gint32\<close> sum as an unsigned value with it.
\<close>

record MonoArray =
  max_length :: guint32
  vector :: "8 word list"

definition mono_array_length :: "MonoArray \<Rightarrow> guint32" where
  "mono_array_length array = max_length array"

definition ves_icall_System_IO_MonoIO_Read ::
  "os \<Rightarrow> handle \<Rightarrow> MonoArray \<Rightarrow> gint32 \<Rightarrow> gint32 \<Rightarrow> world \<Rightarrow> gint32 \<times> world" where
  "ves_icall_System_IO_MonoIO_Read sys handle dest dest_offset count w =
    (let w = set_error ERROR_SUCCESS w
     in if mono_array_length dest < dest_offset + count then (0, w)
        else let (r, w) = native sys (ReadFile handle dest_offset count) w;
                 result = gbool r;
                 n = dword r
             in if result = 0 then (- 1, set_error (GetLastError w) w) else (n, w))"

definition ves_icall_System_IO_MonoIO_Write ::
  "os \<Rightarrow> handle \<Rightarrow> MonoArray \<Rightarrow> gint32 \<Rightarrow> gint32 \<Rightarrow> world \<Rightarrow> gint32 \<times> world" where
  "ves_icall_System_IO_MonoIO_Write sys handle src src_offset count w =
    (let w = set_error ERROR_SUCCESS w
     in if mono_array_length src < src_offset + count then (0, w)
        else let (r, w) = native sys (WriteFile handle src_offset count) w;
                 result = gbool r;
                 n = dword r
             in if result = 0 then (- 1, set_error (GetLastError w) w) else (n, w))"

text \<open>
  \<^verbatim>\<open>Seek\<close>: the \<^verbatim>\<open>guint32\<close> result of \<^verbatim>\<open>SetFilePointer\<close> is stored in the
  \<^verbatim>\<open>gint64\<close> \<open>offset\<close> (zero-extended) and compared there with the sentinel;
  \<open>offset_hi\<close> is a \<^verbatim>\<open>gint32\<close>, sign-extended by the cast to \<^verbatim>\<open>gint64\<close>.
\<close>

definition ves_icall_System_IO_MonoIO_Seek ::
  "hdr \<Rightarrow> os \<Rightarrow> handle \<Rightarrow> gint64 \<Rightarrow> gint32 \<Rightarrow> world \<Rightarrow> gint64 \<times> world" where
  "ves_icall_System_IO_MonoIO_Seek h sys handle offset origin w =
    (let w = set_error ERROR_SUCCESS w;
         offset_hi = high_word offset;
         (r, w) = native sys (SetFilePointer handle (low_word offset) offset_hi
                                (convert_seekorigin h origin)) w;
         offset = (ucast (dword r) :: gint64);
         offset_hi = high r;
         w = (if offset = ucast INVALID_SET_FILE_POINTER
              then set_error (GetLastError w) w else w)
     in (offset OR push_bit 32 (scast offset_hi), w))"

definition ves_icall_System_IO_MonoIO_Flush ::
  "os \<Rightarrow> handle \<Rightarrow> world \<Rightarrow> MonoBoolean \<times> world" where
  "ves_icall_System_IO_MonoIO_Flush sys handle w =
    (let w = set_error ERROR_SUCCESS w;
         (r, w) = native sys (FlushFileBuffers handle) w;
         ret = gbool r
     in if ret = 0 then (ucast ret, set_error (GetLastError w) w) else (ucast ret, w))"

text \<open>\<^verbatim>\<open>GetLength\<close>: \<open>length_hi\<close> is a \<^verbatim>\<open>guint32\<close>, zero-extended by the cast.\<close>

definition ves_icall_System_IO_MonoIO_GetLength ::
  "hdr \<Rightarrow> os \<Rightarrow> handle \<Rightarrow> world \<Rightarrow> gint64 \<times> world" where
  "ves_icall_System_IO_MonoIO_GetLength h sys handle w =
    (let w = set_error ERROR_SUCCESS w;
         (r, w) = native sys (GetFileSize handle) w;
         len = (ucast (dword r) :: gint64);
         length_hi = high r;
         w = (if len = ucast (h INVALID_FILE_SIZE)
              then set_error (GetLastError w) w else w)
     in (len OR push_bit 32 (ucast length_hi), w))"

definition ves_icall_System_IO_MonoIO_SetLength ::
  "hdr \<Rightarrow> os \<Rightarrow> handle \<Rightarrow> gint64 \<Rightarrow> world \<Rightarrow> MonoBoolean \<times> world" where
  "ves_icall_System_IO_MonoIO_SetLength h sys handle len w =
    (let w = set_error ERROR_SUCCESS w;
         offset_hi = 0;
         (r, w) = native sys (SetFilePointer handle 0 offset_hi (h FILE_CURRENT)) w;
         offset = (ucast (dword r) :: gint64);
         offset_hi = high r
     in if offset = ucast INVALID_SET_FILE_POINTER
        then (0, set_error (GetLastError w) w)
        else
          let length_hi = high_word len;
              (r, w) = native sys (SetFilePointer handle (low_word len) length_hi
                                     (h FILE_BEGIN)) w;
              offset_set = (ucast (dword r) :: gint64)
          in if offset_set = ucast INVALID_SET_FILE_POINTER
             then (0, set_error (GetLastError w) w)
             else
               let (r, w) = native sys (SetEndOfFile handle) w;
                   result = gbool r
               in if result = 0
                  then (0, set_error (GetLastError w) w)
                  else
                    let (r, w) = native sys (SetFilePointer handle (low_word offset)
                                               offset_hi (h FILE_BEGIN)) w;
                        offset_set = (ucast (dword r) :: gint64)
                    in if offset_set = ucast INVALID_SET_FILE_POINTER
                       then (0, set_error (GetLastError w) w)
                       else (ucast result, w))"

text \<open>
  \<^verbatim>\<open>SetFileTime\<close>: a negative time is passed as a null pointer, any other as the
  address of the \<^verbatim>\<open>gint64\<close> read as a \<^verbatim>\<open>FILETIME\<close>.
\<close>

definition ves_icall_System_IO_MonoIO_SetFileTime ::
  "os \<Rightarrow> handle \<Rightarrow> gint64 \<Rightarrow> gint64 \<Rightarrow> gint64 \<Rightarrow> world \<Rightarrow> MonoBoolean \<times> world" where
  "ves_icall_System_IO_MonoIO_SetFileTime sys handle creation_time last_access_time
      last_write_time w =
    (let w = set_error ERROR_SUCCESS w;
         creation_filetime =
           (if creation_time <s 0 then None else Some (filetime_of creation_time));
         last_access_filetime =
           (if last_access_time <s 0 then None else Some (filetime_of last_access_time));
         last_write_filetime =
           (if last_write_time <s 0 then None else Some (filetime_of last_write_time));
         (r, w) = native sys (SetFileTime handle creation_filetime last_access_filetime
                                last_write_filetime) w;
         ret = gbool r
     in if ret = 0 then (ucast ret, set_error (GetLastError w) w) else (ucast ret, w))"

definition ves_icall_System_IO_MonoIO_Lock ::
  "os \<Rightarrow> handle \<Rightarrow> gint64 \<Rightarrow> gint64 \<Rightarrow> world \<Rightarrow> world" where
  "ves_icall_System_IO_MonoIO_Lock sys handle position len w =
    (let w = set_error ERROR_SUCCESS w;
         (r, w) = native sys (LockFile handle (low_word position) (high_word position)
                                (low_word len) (high_word len)) w;
         ret = gbool r
     in if ret = 0 then set_error (GetLastError w) w else w)"

definition ves_icall_System_IO_MonoIO_Unlock ::
  "os \<Rightarrow> handle \<Rightarrow> gint64 \<Rightarrow> gint64 \<Rightarrow> world \<Rightarrow> world" where
  "ves_icall_System_IO_MonoIO_Unlock sys handle position len w =
    (let w = set_error ERROR_SUCCESS w;
         (r, w) = native sys (UnlockFile handle (low_word position) (high_word position)
                                (low_word len) (high_word len)) w;
         ret = gbool r
     in if ret = 0 then set_error (GetLastError w) w else w)"

subsection \<open>The internal calls with an error parameter\<close>

text \<open>
  Every internal call of the file that takes \<^verbatim>\<open>gint32 *error\<close>, with its
  arguments.
\<close>

datatype icall =
    Op_CreateDirectory "gunichar2 list"
  | Op_RemoveDirectory "gunichar2 list"
  | Op_GetFileSystemEntries "gunichar2 list" "gunichar2 list" guint32 guint32
  | Op_GetCurrentDirectory
  | Op_SetCurrentDirectory "gunichar2 list"
  | Op_MoveFile "gunichar2 list" "gunichar2 list"
  | Op_ReplaceFile "gunichar2 list option" "gunichar2 list option" "gunichar2 list option" bool
  | Op_CopyFile "gunichar2 list" "gunichar2 list" bool
  | Op_DeleteFile "gunichar2 list"
  | Op_GetFileAttributes "gunichar2 list"
  | Op_SetFileAttributes "gunichar2 list" gint32
  | Op_GetFileType handle
  | Op_GetFileStat "gunichar2 list" WIN32_FILE_ATTRIBUTE_DATA
  | Op_Open "gunichar2 list" gint32 gint32 gint32 gint32
  | Op_Close handle
  | Op_Read handle MonoArray gint32 gint32
  | Op_Write handle MonoArray gint32 gint32
  | Op_Seek handle gint64 gint32
  | Op_Flush handle
  | Op_GetLength handle
  | Op_SetLength handle gint64
  | Op_SetFileTime handle gint64 gint64 gint64
  | Op_Lock handle gint64 gint64
  | Op_Unlock handle gint64 gint64

text \<open>
  Running an internal call gives the state it leaves and whether the operation
  failed. For \<^verbatim>\<open>Seek\<close>, \<^verbatim>\<open>GetLength\<close> and \<^verbatim>\<open>GetFileType\<close>, whose one call
  into the operating system has a result that does not tell a failure from a
  success, the operation failed when that call did not succeed. Every other call
  failed when it returns the failure value of its signature to its caller
  (\<^verbatim>\<open>FALSE\<close>, \<^verbatim>\<open>NULL\<close>, \<^verbatim>\<open>INVALID_HANDLE_VALUE\<close>, \<^verbatim>\<open>-1\<close>); \<^verbatim>\<open>Lock\<close> and
  \<^verbatim>\<open>Unlock\<close>, which return nothing, failed when \<^verbatim>\<open>LockFile\<close> or
  \<^verbatim>\<open>UnlockFile\<close> returns \<^verbatim>\<open>FALSE\<close>.
\<close>

fun run :: "hdr \<Rightarrow> remapper \<Rightarrow> strenc \<Rightarrow> os \<Rightarrow> icall \<Rightarrow> world \<Rightarrow> bool \<times> world" where
  "run h hook se sys (Op_CreateDirectory path) w =
    (let (ret, w') = ves_icall_System_IO_MonoIO_CreateDirectory hook sys path w
     in (ret = 0, w'))"
| "run h hook se sys (Op_RemoveDirectory path) w =
    (let (ret, w') = ves_icall_System_IO_MonoIO_RemoveDirectory hook sys path w
     in (ret = 0, w'))"
| "run h hook se sys (Op_GetFileSystemEntries path path_with_pattern attrs attr_mask) w =
    (let (ret, w') = ves_icall_System_IO_MonoIO_GetFileSystemEntries h hook se sys path
                       path_with_pattern attrs attr_mask w
     in (ret = None, w'))"
| "run h hook se sys Op_GetCurrentDirectory w =
    (let (ret, w') = ves_icall_System_IO_MonoIO_GetCurrentDirectory h sys w
     in (ret = None, w'))"
| "run h hook se sys (Op_SetCurrentDirectory path) w =
    (let (ret, w') = ves_icall_System_IO_MonoIO_SetCurrentDirectory hook sys path w
     in (ret = 0, w'))"
| "run h hook se sys (Op_MoveFile path dest) w =
    (let (ret, w') = ves_icall_System_IO_MonoIO_MoveFile hook sys path dest w
     in (ret = 0, w'))"
| "run h hook se sys (Op_ReplaceFile src dst backup ignore) w =
    (let (ret, w') = ves_icall_System_IO_MonoIO_ReplaceFile h hook sys src dst backup ignore w
     in (ret = 0, w'))"
| "run h hook se sys (Op_CopyFile path dest overwrite) w =
    (let (ret, w') = ves_icall_System_IO_MonoIO_CopyFile hook sys path dest overwrite w
     in (ret = 0, w'))"
| "run h hook se sys (Op_DeleteFile path) w =
    (let (ret, w') = ves_icall_System_IO_MonoIO_DeleteFile hook sys path w
     in (ret = 0, w'))"
| "run h hook se sys (Op_GetFileAttributes path) w =
    (let (ret, w') = ves_icall_System_IO_MonoIO_GetFileAttributes h hook sys path w
     in (ret = - 1, w'))"
| "run h hook se sys (Op_SetFileAttributes path attrs) w =
    (let (ret, w') = ves_icall_System_IO_MonoIO_SetFileAttributes h hook sys path attrs w
     in (ret = 0, w'))"
| "run h hook se sys (Op_GetFileType handle) w =
    (\<not> succeeded (sys (GetFileType handle) (set_error ERROR_SUCCESS w)),
     snd (ves_icall_System_IO_MonoIO_GetFileType h sys handle w))"
| "run h hook se sys (Op_GetFileStat path data) w =
    (let ((ret, st), w') = ves_icall_System_IO_MonoIO_GetFileStat h hook sys path data w
     in (ret = False, w'))"
| "run h hook se sys (Op_Open filename mode access_mode share options) w =
    (let (ret, w') = ves_icall_System_IO_MonoIO_Open h hook sys filename mode access_mode
                       share options w
     in (ret = None, w'))"
| "run h hook se sys (Op_Close handle) w =
    (let (ret, w') = ves_icall_System_IO_MonoIO_Close sys handle w
     in (ret = 0, w'))"
| "run h hook se sys (Op_Read handle dest dest_offset count) w =
    (let (ret, w') = ves_icall_System_IO_MonoIO_Read sys handle dest dest_offset count w
     in (ret = - 1, w'))"
| "run h hook se sys (Op_Write handle src src_offset count) w =
    (let (ret, w') = ves_icall_System_IO_MonoIO_Write sys handle src src_offset count w
     in (ret = - 1, w'))"
| "run h hook se sys (Op_Seek handle offset origin) w =
    (\<not> succeeded (sys (SetFilePointer handle (low_word offset) (high_word offset)
                          (convert_seekorigin h origin)) (set_error ERROR_SUCCESS w)),
     snd (ves_icall_System_IO_MonoIO_Seek h sys handle offset origin w))"
| "run h hook se sys (Op_Flush handle) w =
    (let (ret, w') = ves_icall_System_IO_MonoIO_Flush sys handle w
     in (ret = 0, w'))"
| "run h hook se sys (Op_GetLength handle) w =
    (\<not> succeeded (sys (GetFileSize handle) (set_error ERROR_SUCCESS w)),
     snd (ves_icall_System_IO_MonoIO_GetLength h sys handle w))"
| "run h hook se sys (Op_SetLength handle len) w =
    (let (ret, w') = ves_icall_System_IO_MonoIO_SetLength h sys handle len w
     in (ret = 0, w'))"
| "run h hook se sys (Op_SetFileTime handle creation last_access last_write) w =
    (let (ret, w') = ves_icall_System_IO_MonoIO_SetFileTime sys handle creation last_access
                       last_write w
     in (ret = 0, w'))"
| "run h hook se sys (Op_Lock handle position len) w =
    (\<not> ok (sys (LockFile handle (low_word position) (high_word position)
                   (low_word len) (high_word len)) (set_error ERROR_SUCCESS w)),
     ves_icall_System_IO_MonoIO_Lock sys handle position len w)"
| "run h hook se sys (Op_Unlock handle position len) w =
    (\<not> ok (sys (UnlockFile handle (low_word position) (high_word position)
                   (low_word len) (high_word len)) (set_error ERROR_SUCCESS w)),
     ves_icall_System_IO_MonoIO_Unlock sys handle position len w)"

text \<open>
  The internal calls whose call into the operating system has a result that does
  not tell a failure from a success, and, for them, whether the value the internal
  call returns is the value that reports a failure: a position whose low word is
  \<^verbatim>\<open>INVALID_SET_FILE_POINTER\<close>, a length whose low word is \<^verbatim>\<open>INVALID_FILE_SIZE\<close>,
  the type \<^verbatim>\<open>FILE_TYPE_UNKNOWN\<close>.
\<close>

fun by_value :: "icall \<Rightarrow> bool" where
  "by_value (Op_Seek handle offset origin) = True"
| "by_value (Op_GetLength handle) = True"
| "by_value (Op_GetFileType handle) = True"
| "by_value ic = False"

fun failure_value_returned :: "hdr \<Rightarrow> os \<Rightarrow> icall \<Rightarrow> world \<Rightarrow> bool" where
  "failure_value_returned h sys (Op_Seek handle offset origin) w =
    (low_word (fst (ves_icall_System_IO_MonoIO_Seek h sys handle offset origin w)) =
       INVALID_SET_FILE_POINTER)"
| "failure_value_returned h sys (Op_GetLength handle) w =
    (low_word (fst (ves_icall_System_IO_MonoIO_GetLength h sys handle w)) =
       h INVALID_FILE_SIZE)"
| "failure_value_returned h sys (Op_GetFileType handle) w =
    (fst (ves_icall_System_IO_MonoIO_GetFileType h sys handle w) = h FILE_TYPE_UNKNOWN)"
| "failure_value_returned h sys ic w = False"

subsection \<open>Observations\<close>

text \<open>The calls into the operating system among the events, in order.\<close>

fun calls_of :: "event list \<Rightarrow> native_call list" where
  "calls_of [] = []"
| "calls_of (Native c # es) = c # calls_of es"
| "calls_of (Error_write v # es) = calls_of es"

text \<open>The events an internal call adds to those of the state it starts in.\<close>

definition events_since :: "world \<Rightarrow> world \<Rightarrow> event list" where
  "events_since w w' = drop (length (log w)) (log w')"


text \<open>
  An entry of an enumeration is listed for a mask and a value when it is not a dot
  entry, its attributes under the mask equal the value, and its name converts to
  UTF-8; its full name joins the directory with the converted name.
\<close>

definition listed :: "strenc \<Rightarrow> guint32 \<Rightarrow> guint32 \<Rightarrow> WIN32_FIND_DATA \<Rightarrow> bool" where
  "listed se m v e =
    (\<not> is_dot_entry e \<and> dwFileAttributes e AND m = v \<and>
     g_utf16_to_utf8 se (c_string (cFileName e)) \<noteq> None)"

definition full_name :: "strenc \<Rightarrow> string \<Rightarrow> WIN32_FIND_DATA \<Rightarrow> string" where
  "full_name se dir e =
    g_build_filename se dir
      (case g_utf16_to_utf8 se (c_string (cFileName e)) of None \<Rightarrow> [] | Some nm \<Rightarrow> nm)"

text \<open>
  The \<^verbatim>\<open>FileShare\<close> value that holds the chosen ones of the flags Read, Write and
  Delete, and the native value that holds the same choice.
\<close>

definition file_share :: "hdr \<Rightarrow> bool \<Rightarrow> bool \<Rightarrow> bool \<Rightarrow> guint32" where
  "file_share h r w d =
    (if r then h FileShare_Read else 0) OR (if w then h FileShare_Write else 0) OR
    (if d then h FileShare_Delete else 0)"

definition native_share :: "hdr \<Rightarrow> bool \<Rightarrow> bool \<Rightarrow> bool \<Rightarrow> guint32" where
  "native_share h r w d =
    (if r then h FILE_SHARE_READ else 0) OR (if w then h FILE_SHARE_WRITE else 0) OR
    (if d then h FILE_SHARE_DELETE else 0)"

text \<open>
  The discipline of the error parameter, for a run from the state \<open>w\<close> with the
  outcome \<open>r\<close> (whether the operation failed, and the state it ends in): the
  first event is the store of \<^verbatim>\<open>ERROR_SUCCESS\<close>, a later store happens only in a
  run that failed, and after a run that did not the parameter holds
  \<^verbatim>\<open>ERROR_SUCCESS\<close>.
\<close>

definition disciplined :: "world \<Rightarrow> bool \<times> world \<Rightarrow> bool" where
  "disciplined w r =
    (take 1 (events_since w (snd r)) = [Error_write ERROR_SUCCESS] \<and>
     (\<forall>v. Error_write v \<in> set (tl (events_since w (snd r))) \<longrightarrow> fst r) \<and>
     (\<not> fst r \<longrightarrow> error (snd r) = ERROR_SUCCESS))"

text \<open>
  The same for a run whose store is decided by the value \<open>s\<close> tells about: the
  first event is the store of \<^verbatim>\<open>ERROR_SUCCESS\<close>, a later store happens only where
  \<open>s\<close> holds and leaves the last-error value in the parameter, and where \<open>s\<close>
  does not hold the parameter holds \<^verbatim>\<open>ERROR_SUCCESS\<close>.
\<close>

definition stored_by_value :: "world \<Rightarrow> bool \<Rightarrow> world \<Rightarrow> bool" where
  "stored_by_value w s w' =
    (take 1 (events_since w w') = [Error_write ERROR_SUCCESS] \<and>
     (\<forall>v. Error_write v \<in> set (tl (events_since w w')) \<longrightarrow> s) \<and>
     (\<not> s \<longrightarrow> error w' = ERROR_SUCCESS) \<and>
     (s \<longrightarrow> error w' = GetLastError w'))"

subsection \<open>Sample inputs\<close>

text \<open>
  Concrete states, operating systems and string functions on which the functions
  above can be evaluated.
\<close>

definition fresh_world :: world where
  "fresh_world = \<lparr>last_error = 0, error = 0x55, log = []\<rparr>"

text \<open>A state whose last-error value is left over from an earlier failure.\<close>

definition stale_world :: world where
  "stale_world = \<lparr>last_error = 2, error = 0x55, log = []\<rparr>"

definition zero_time :: FILETIME where
  "zero_time = \<lparr>dwLowDateTime = 0, dwHighDateTime = 0\<rparr>"

definition plain_data :: WIN32_FILE_ATTRIBUTE_DATA where
  "plain_data =
    \<lparr>dwFileAttributes = 0x20, ftCreationTime = zero_time, ftLastAccessTime = zero_time,
     ftLastWriteTime = zero_time, nFileSizeHigh = 0, nFileSizeLow = 0\<rparr>"

text \<open>A directory entry with the given attributes and name.\<close>

definition entry :: "guint32 \<Rightarrow> gunichar2 list \<Rightarrow> WIN32_FIND_DATA" where
  "entry attrs nm =
    \<lparr>dwFileAttributes = attrs, ftCreationTime = zero_time, ftLastAccessTime = zero_time,
     ftLastWriteTime = zero_time, nFileSizeHigh = 0, nFileSizeLow = 0, cFileName = nm\<rparr>"

definition plain_reply :: reply where
  "plain_reply =
    \<lparr>succeeded = True, gbool = 1, dword = 0x10, high = 0, attr_data = plain_data, found = [],
     opened = Some 3, chars = [0x2F], err = 0\<rparr>"

definition failed_reply :: "guint32 \<Rightarrow> reply" where
  "failed_reply e =
    \<lparr>succeeded = False, gbool = 0, dword = 0xFFFFFFFF, high = 0, attr_data = plain_data,
     found = [],
     opened = None, chars = [], err = e\<rparr>"

text \<open>An operating system where every call succeeds and keeps the last-error value.\<close>

definition accepting :: os where
  "accepting c w = plain_reply\<lparr>err := last_error w\<rparr>"

text \<open>
  An operating system where the call made after \<open>k\<close> earlier ones fails with
  error 5 and every other call succeeds.
\<close>

definition failing_at :: "nat \<Rightarrow> os" where
  "failing_at k c w =
    (if length (calls_of (log w)) = k then failed_reply 5
     else plain_reply\<lparr>err := last_error w\<rparr>)"

text \<open>
  An operating system where every call succeeds and keeps the last-error value, and
  \<^verbatim>\<open>SetFilePointer\<close> reports the position asked for when it moves from the
  beginning of the file (method 0) and the position 0x10 otherwise.
\<close>

definition seeking :: os where
  "seeking c w =
    (case c of
       SetFilePointer handle lo hi method \<Rightarrow>
         (if method = 0 then plain_reply\<lparr>dword := lo, high := hi, err := last_error w\<rparr>
          else plain_reply\<lparr>dword := 0x10, high := 0, err := last_error w\<rparr>)
     | _ \<Rightarrow> plain_reply\<lparr>err := last_error w\<rparr>)"

text \<open>
  An operating system where \<^verbatim>\<open>SetFilePointer\<close> succeeds and reports the position
  0xFFFFFFFF (low word 0xFFFFFFFF, high word 0), keeping the last-error value.
\<close>

definition at_4g_minus_1 :: os where
  "at_4g_minus_1 c w = plain_reply\<lparr>dword := 0xFFFFFFFF, high := 0, err := last_error w\<rparr>"

text \<open>
  An operating system where the direct attribute queries fail with error \<open>e\<close>,
  and \<^verbatim>\<open>FindFirstFile\<close> opens the enumeration \<open>entries\<close>, or fails with error
  \<open>e2\<close> where \<open>entries\<close> is empty.
\<close>

definition query_fails :: "guint32 \<Rightarrow> WIN32_FIND_DATA list \<Rightarrow> guint32 \<Rightarrow> os" where
  "query_fails e entries e2 c w =
    (case c of
       GetFileAttributes p \<Rightarrow> failed_reply e
     | GetFileAttributesEx p \<Rightarrow> failed_reply e
     | FindFirstFile p \<Rightarrow>
         (if entries = [] then failed_reply e2
          else plain_reply\<lparr>found := entries, err := last_error w\<rparr>)
     | _ \<Rightarrow> plain_reply\<lparr>err := last_error w\<rparr>)"

text \<open>
  An operating system where \<^verbatim>\<open>FindFirstFile\<close> opens the enumeration \<open>entries\<close>,
  or fails with error \<open>e\<close> where \<open>entries\<close> is empty, and \<^verbatim>\<open>FindClose\<close>
  fails with error \<open>e2\<close> where \<open>close_ok\<close> is false.
\<close>

definition listing :: "WIN32_FIND_DATA list \<Rightarrow> guint32 \<Rightarrow> bool \<Rightarrow> guint32 \<Rightarrow> os" where
  "listing entries e close_ok e2 c w =
    (case c of
       FindFirstFile p \<Rightarrow>
         (if entries = [] then failed_reply e
          else plain_reply\<lparr>found := entries, err := last_error w\<rparr>)
     | FindClose \<Rightarrow>
         (if close_ok then plain_reply\<lparr>err := last_error w\<rparr> else failed_reply e2)
     | _ \<Rightarrow> plain_reply\<lparr>err := last_error w\<rparr>)"


text \<open>
  Sample string functions. \<open>utf16_codes\<close> reads UTF-16 and answers \<open>None\<close> on a
  surrogate code unit without its partner, where \<^verbatim>\<open>g_utf16_to_utf8\<close> returns
  \<^verbatim>\<open>NULL\<close>; the sample of \<^verbatim>\<open>g_build_filename\<close> joins with one separator.
\<close>

fun utf16_codes :: "gunichar2 list \<Rightarrow> nat list option" where
  "utf16_codes [] = Some []"
| "utf16_codes [c] = (if 0xD800 \<le> c \<and> c \<le> 0xDFFF then None else Some [unat c])"
| "utf16_codes (c # d # cs) =
    (if 0xD800 \<le> c \<and> c < 0xDC00
     then (if 0xDC00 \<le> d \<and> d \<le> 0xDFFF
           then map_option ((#) (0x10000 + (unat c - 0xD800) * 0x400 + (unat d - 0xDC00)))
                  (utf16_codes cs)
           else None)
     else if 0xDC00 \<le> c \<and> c \<le> 0xDFFF then None
     else map_option ((#) (unat c)) (utf16_codes (d # cs)))"

definition utf8_of_code :: "nat \<Rightarrow> string" where
  "utf8_of_code n =
    (if n < 0x80 then [char_of n]
     else if n < 0x800 then [char_of (0xC0 + n div 0x40), char_of (0x80 + n mod 0x40)]
     else if n < 0x10000
     then [char_of (0xE0 + n div 0x1000), char_of (0x80 + n div 0x40 mod 0x40),
           char_of (0x80 + n mod 0x40)]
     else [char_of (0xF0 + n div 0x40000), char_of (0x80 + n div 0x1000 mod 0x40),
           char_of (0x80 + n div 0x40 mod 0x40), char_of (0x80 + n mod 0x40)])"

definition sample_strings :: strenc where
  "sample_strings =
    \<lparr>g_utf16_to_utf8 = (\<lambda>cs. map_option (\<lambda>ns. concat (map utf8_of_code ns)) (utf16_codes cs)),
     mono_string_to_utf8 =
       (\<lambda>cs. case utf16_codes cs of None \<Rightarrow> [] | Some ns \<Rightarrow> concat (map utf8_of_code ns)),
     g_build_filename = (\<lambda>dir nm. dir @ ''/'' @ nm)\<rparr>"


text \<open>The directory \<^verbatim>\<open>d\<close> and the pattern \<^verbatim>\<open>d/*\<close>.\<close>

definition sample_dir :: "gunichar2 list" where
  "sample_dir = [0x64]"

definition sample_pattern :: "gunichar2 list" where
  "sample_pattern = [0x64, 0x2F, 0x2A]"

text \<open>
  The enumeration of a directory with the two dot entries, a file \<^verbatim>\<open>a\<close> and a
  directory \<^verbatim>\<open>s\<close>; and one with a file \<^verbatim>\<open>a\<close> and a file whose name is the
  single surrogate code unit 0xD800.
\<close>

definition sample_entries :: "WIN32_FIND_DATA list" where
  "sample_entries =
    [entry 0x10 [0x2E], entry 0x10 [0x2E, 0x2E], entry 0x20 [0x61], entry 0x10 [0x73]]"

definition odd_entries :: "WIN32_FIND_DATA list" where
  "odd_entries = [entry 0x20 [0x61], entry 0x20 [0xD800]]"


section \<open>Properties\<close>

subsection \<open>Values of the sample table\<close>

lemma sdk_errors:
  "sdk ERROR_SHARING_VIOLATION = 32" "sdk ERROR_FILE_NOT_FOUND = 2"
  "sdk INVALID_FILE_ATTRIBUTES = 0xFFFFFFFF" "sdk INVALID_FILE_SIZE = 0xFFFFFFFF"
  "sdk FILE_TYPE_UNKNOWN = 0" "sdk MAX_PATH = 260"
  by (simp_all add: sdk_def sdk_table_def)

lemma sdk_share:
  "sdk FileShare_Read = 1" "sdk FileShare_Write = 2" "sdk FileShare_Delete = 4"
  "sdk FILE_SHARE_READ = 1" "sdk FILE_SHARE_WRITE = 2" "sdk FILE_SHARE_DELETE = 4"
  by (simp_all add: sdk_def sdk_table_def)

lemma sdk_seek:
  "sdk SeekOrigin_Begin = 0" "sdk SeekOrigin_Current = 1" "sdk SeekOrigin_End = 2"
  "sdk FILE_BEGIN = 0" "sdk FILE_CURRENT = 1" "sdk FILE_END = 2"
  by (simp_all add: sdk_def sdk_table_def)

lemma sdk_encrypted:
  "sdk FileAttributes_Encrypted = 0x4000" "sdk FILE_ATTRIBUTE_ENCRYPTED = 0x4000"
  by (simp_all add: sdk_def sdk_table_def)

subsection \<open>Words\<close>





lemma low_word_eq: "low_word x = ucast x"
proof -
  have m: "(0xFFFFFFFF :: 64 word) = mask 32" by (simp add: mask_eq_exp_minus_1)
  show ?thesis unfolding low_word_def m
    by (rule bit_word_eqI) (auto simp add: bit_simps)
qed

lemma ucast_back: "ucast (ucast (x :: 32 word) :: 64 word) = x"
  by (rule bit_word_eqI) (auto simp add: bit_simps)

lemma low_word_ucast: "low_word (ucast (lo :: 32 word)) = lo"
  by (simp add: low_word_eq ucast_back)

lemma low_word_or_scast:
  "low_word (ucast (lo :: 32 word) OR push_bit 32 (scast (hi :: 32 word))) = lo"
  unfolding low_word_eq
  by (rule bit_word_eqI) (auto simp add: bit_simps)

lemma low_word_or_ucast:
  "low_word (ucast (lo :: 32 word) OR push_bit 32 (ucast (hi :: 32 word))) = lo"
  unfolding low_word_eq
  by (rule bit_word_eqI) (auto simp add: bit_simps)

lemma ucast_eq_iff: "((ucast (x :: 32 word) :: 64 word) = ucast (y :: 32 word)) = (x = y)"
  by (metis ucast_back)

text \<open>
  Where the sum of the two signed values exceeds the unsigned length, so does the
  wrapped 32-bit sum read as an unsigned value.
\<close>

lemma guard_of_sum:
  fixes a b l :: "32 word"
  assumes "uint l < sint a + sint b"
  shows "l < a + b"
proof -
  have bnd: "sint a < 2 ^ 31" "sint b < 2 ^ 31"
    using sint_lt [of a] sint_lt [of b] by simp_all
  have pos: "0 \<le> sint a + sint b" using assms uint_ge_0 [of l] by linarith
  have ua: "uint a = sint a mod 2 ^ 32" and ub: "uint b = sint b mod 2 ^ 32"
    by (simp_all add: uint_sint take_bit_eq_mod)
  have "uint (a + b) = (uint a + uint b) mod 2 ^ 32"
    by (simp add: uint_word_ariths)
  also have "\<dots> = (sint a + sint b) mod 2 ^ 32"
    unfolding ua ub by (simp add: mod_add_eq)
  also have "\<dots> = sint a + sint b"
    using pos bnd by simp
  finally show ?thesis using assms by (simp add: word_less_def)
qed

subsection \<open>The state after a call or a store\<close>

lemma native_fst: "fst (native sys c w) = sys c w"
  by (simp add: native_def Let_def)

lemma native_error: "error (snd (native sys c w)) = error w"
  by (simp add: native_def Let_def)

lemma native_log: "log (snd (native sys c w)) = log w @ [Native c]"
  by (simp add: native_def Let_def)

lemma native_last_error: "GetLastError (snd (native sys c w)) = err (sys c w)"
  by (simp add: native_def Let_def GetLastError_def)

lemma set_error_error: "error (set_error v w) = v"
  by (simp add: set_error_def)

lemma set_error_log: "log (set_error v w) = log w @ [Error_write v]"
  by (simp add: set_error_def)

lemma set_error_last_error: "GetLastError (set_error v w) = GetLastError w"
  by (simp add: set_error_def GetLastError_def)

lemma native_last_error_raw: "last_error (snd (native sys c w)) = err (sys c w)"
  by (simp add: native_def Let_def)

lemma set_error_last_error_raw: "last_error (set_error v w) = last_error w"
  by (simp add: set_error_def)

lemma events_since_append: "log w' = log w @ es \<Longrightarrow> events_since w w' = es"
  by (simp add: events_since_def)

lemma events_since_eq: "events_since w w' = drop (length (log w)) (log w')"
  by (simp add: events_since_def)

lemmas world_simps = native_fst native_error native_log native_last_error
  set_error_error set_error_log set_error_last_error events_since_eq

subsection \<open>The enumeration loop\<close>

lemma find_loop_names:
  "fst (find_loop se sys m v dir data pending names w) =
     names @ map (full_name se dir) (filter (listed se m v) (data # pending))"
  by (induction pending arbitrary: data names w)
     (auto simp add: collect_entry_def listed_def full_name_def split: option.splits)

lemma find_loop_error: "error (snd (find_loop se sys m v dir data pending names w)) = error w"
  by (induction pending arbitrary: data names w) (simp_all add: world_simps)

lemma find_loop_log:
  "log (snd (find_loop se sys m v dir data pending names w)) =
     log w @ replicate (Suc (length pending)) (Native FindNextFile)"
  by (induction pending arbitrary: data names w)
     (simp_all add: world_simps replicate_append_same)

lemma calls_of_append: "calls_of (es @ fs) = calls_of es @ calls_of fs"
  by (induction es rule: calls_of.induct) simp_all

lemma calls_of_replicate: "calls_of (replicate n (Native c)) = replicate n c"
  by (induction n) simp_all

lemmas loop_simps = find_loop_names find_loop_error find_loop_log calls_of_append
  calls_of_replicate

lemma listed_unmasked:
  "listed se 0 0 = (\<lambda>e. \<not> is_dot_entry e \<and> g_utf16_to_utf8 se (c_string (cFileName e)) \<noteq> None)"
  by (rule ext) (simp add: listed_def)

lemma convert_attrs_0: "convert_attrs h 0 = 0"
  by (simp add: convert_attrs_def)

subsection \<open>Values of the sample inputs\<close>

lemma no_hook: "get_remapped_path None p = p"
  by (simp add: get_remapped_path_def get_remapped_string_def)

lemma sample_names:
  "g_utf16_to_utf8 sample_strings [0x2E] = Some ''.''"
  "g_utf16_to_utf8 sample_strings [0x2E, 0x2E] = Some ''..''"
  "g_utf16_to_utf8 sample_strings [0x61] = Some ''a''"
  "g_utf16_to_utf8 sample_strings [0x73] = Some ''s''"
  "g_utf16_to_utf8 sample_strings [0xD800] = None"
  "mono_string_to_utf8 sample_strings sample_dir = ''d''"
  by code_simp+

lemma sample_join: "g_build_filename sample_strings dir nm = dir @ ''/'' @ nm"
  by (simp add: sample_strings_def)

lemma sample_dots:
  "is_dot_entry (entry a [0x2E])" "is_dot_entry (entry a [0x2E, 0x2E])"
  "\<not> is_dot_entry (entry a [0x61])" "\<not> is_dot_entry (entry a [0x73])"
  "\<not> is_dot_entry (entry a [0xD800])"
  by (simp_all add: is_dot_entry_def char_at_def entry_def)

lemma entry_fields:
  "dwFileAttributes (entry a nm) = a" "cFileName (entry a nm) = nm"
  by (simp_all add: entry_def)

lemma sample_c_strings:
  "c_string [0x2E] = [0x2E]" "c_string [0x2E, 0x2E] = [0x2E, 0x2E]" "c_string [0x61] = [0x61]"
  "c_string [0x73] = [0x73]" "c_string [0xD800] = [0xD800]"
  by (simp_all add: c_string_def)

lemma listing_replies:
  "found (listing [] e c e2 (FindFirstFile p) w) = []"
  "err (listing [] e c e2 (FindFirstFile p) w) = e"
  "found (listing (x # xs) e c e2 (FindFirstFile p) w) = x # xs"
  "err (listing (x # xs) e c e2 (FindFirstFile p) w) = last_error w"
  "ok (listing es e True e2 FindClose w) = True"
  "ok (listing es e False e2 FindClose w) = False"
  "gbool (listing es e True e2 FindClose w) = 1"
  "gbool (listing es e False e2 FindClose w) = 0"
  "err (listing es e False e2 FindClose w) = e2"
  by (simp_all add: listing_def failed_reply_def plain_reply_def ok_def)

lemma sample_listed:
  "filter (listed sample_strings 0x10 0x10) sample_entries = [entry 0x10 [0x73]]"
  "filter (\<lambda>e. \<not> is_dot_entry e \<and>
                g_utf16_to_utf8 sample_strings (c_string (cFileName e)) \<noteq> None) sample_entries =
     [entry 0x20 [0x61], entry 0x10 [0x73]]"
  by (simp_all add: sample_entries_def listed_def sample_dots entry_fields sample_c_strings
      sample_names)

lemma sample_full_names:
  "full_name sample_strings ''d'' (entry a [0x61]) = ''d/a''"
  "full_name sample_strings ''d'' (entry a [0x73]) = ''d/s''"
  by (simp_all add: full_name_def entry_fields sample_c_strings sample_names sample_join)

lemma convert_attrs_dir: "convert_attrs sdk 0x10 = 0x10"
  by (simp add: convert_attrs_def sdk_encrypted)

lemma sample_unmasked:
  "filter (listed sample_strings 0 0) sample_entries = [entry 0x20 [0x61], entry 0x10 [0x73]]"
  by (simp add: sample_entries_def listed_def sample_dots entry_fields sample_c_strings
      sample_names)

lemma query_fails_replies:
  "dword (query_fails e es e2 (GetFileAttributes p) w) = - 1"
  "err (query_fails e es e2 (GetFileAttributes p) w) = e"
  "ok (query_fails e es e2 (GetFileAttributesEx p) w) = False"
  "gbool (query_fails e es e2 (GetFileAttributesEx p) w) = 0"
  "err (query_fails e es e2 (GetFileAttributesEx p) w) = e"
  "found (query_fails e [] e2 (FindFirstFile p) w) = []"
  "err (query_fails e [] e2 (FindFirstFile p) w) = e2"
  "found (query_fails e (x # xs) e2 (FindFirstFile p) w) = x # xs"
  by (simp_all add: query_fails_def failed_reply_def plain_reply_def ok_def)

lemma accepting_replies:
  "dword (accepting c w) = 0x10" "ok (accepting c w) = True"
  "attr_data (accepting c w) = plain_data" "gbool (accepting c w) = 1"
  "succeeded (accepting c w) = True" "high (accepting c w) = 0"
  by (simp_all add: accepting_def plain_reply_def ok_def)

subsection \<open>Share flags\<close>

lemma and_not_self_or:
  fixes a b c :: "32 word"
  shows "a AND NOT a AND NOT b AND NOT c = 0" "b AND NOT a AND NOT b AND NOT c = 0"
    "c AND NOT a AND NOT b AND NOT c = 0"
  by (rule bit_word_eqI; auto simp add: bit_simps)+

lemma or_and_distrib:
  fixes a b c :: "32 word"
  shows "(a OR b) AND c = (a AND c) OR (b AND c)"
  by (rule bit_word_eqI) (auto simp add: bit_simps)

lemma convert_share_of_flags:
  assumes "h FileShare_Read \<noteq> 0" "h FileShare_Write \<noteq> 0" "h FileShare_Delete \<noteq> 0"
    and "h FileShare_Read AND h FileShare_Write = 0"
    and "h FileShare_Read AND h FileShare_Delete = 0"
    and "h FileShare_Write AND h FileShare_Delete = 0"
  shows "convert_share h (file_share h r w d) = native_share h r w d"
proof -
  have sym: "h FileShare_Write AND h FileShare_Read = 0"
    "h FileShare_Delete AND h FileShare_Read = 0"
    "h FileShare_Delete AND h FileShare_Write = 0"
    using assms by (simp_all add: and.commute)
  show ?thesis
    using assms sym
    by (cases r; cases w; cases d)
       (simp_all add: convert_share_def file_share_def native_share_def Let_def
        or_and_distrib and_not_self_or or.assoc)
qed

subsection \<open>The share translator\<close>

text \<open>
  C2. For a \<^verbatim>\<open>FileShare\<close> value with no bit outside Read, Write and Delete,
  \<^verbatim>\<open>convert_share\<close> returns the bitwise OR of the native share bits of the flags
  the value contains. For a value with any bit outside the three flags it returns 0,
  whatever recognised flags the value also contains. Where the three flags are
  distinct bits, the value made of any choice of them is translated to the native
  value made of the same choice.
\<close>

theorem convert_share_all_or_nothing:
  "(x AND NOT (h FileShare_Read OR h FileShare_Write OR h FileShare_Delete) = 0 \<longrightarrow>
      convert_share h x =
        (if x AND h FileShare_Read \<noteq> 0 then h FILE_SHARE_READ else 0) OR
        (if x AND h FileShare_Write \<noteq> 0 then h FILE_SHARE_WRITE else 0) OR
        (if x AND h FileShare_Delete \<noteq> 0 then h FILE_SHARE_DELETE else 0)) \<and>
   (x AND NOT (h FileShare_Read OR h FileShare_Write OR h FileShare_Delete) \<noteq> 0 \<longrightarrow>
      convert_share h x = 0) \<and>
   (h FileShare_Read \<noteq> 0 \<and> h FileShare_Write \<noteq> 0 \<and> h FileShare_Delete \<noteq> 0 \<and>
    h FileShare_Read AND h FileShare_Write = 0 \<and>
    h FileShare_Read AND h FileShare_Delete = 0 \<and>
    h FileShare_Write AND h FileShare_Delete = 0 \<longrightarrow>
      convert_share h (file_share h r w d) = native_share h r w d)"
  using convert_share_of_flags [of h r w d]
  by (simp add: convert_share_def Let_def or.assoc)

theorem convert_share_all_or_nothing_witness:
  "(5 :: guint32) AND NOT (sdk FileShare_Read OR sdk FileShare_Write OR sdk FileShare_Delete) = 0 \<and>
   convert_share sdk 5 = 5 \<and>
   (9 :: guint32) AND NOT (sdk FileShare_Read OR sdk FileShare_Write OR sdk FileShare_Delete) \<noteq> 0 \<and>
   convert_share sdk 9 = 0 \<and>
   file_share sdk True False True = 5 \<and>
   convert_share sdk (file_share sdk True False True) = 5"
proof -
  have in_range:
    "(5 :: guint32) AND NOT (sdk FileShare_Read OR sdk FileShare_Write OR sdk FileShare_Delete) = 0"
    by (simp add: sdk_share)
  have foreign:
    "(9 :: guint32) AND NOT (sdk FileShare_Read OR sdk FileShare_Write OR sdk FileShare_Delete) \<noteq> 0"
    by (simp add: sdk_share)
  have flags: "file_share sdk True False True = 5"
    by (simp add: file_share_def sdk_share)
  have "convert_share sdk 5 = 5"
    using convert_share_all_or_nothing [of 5 sdk] in_range by (simp add: sdk_share)
  moreover have "convert_share sdk 9 = 0"
    using convert_share_all_or_nothing [of 9 sdk] foreign by blast
  moreover have "convert_share sdk (file_share sdk True False True) = 5"
    using convert_share_all_or_nothing [of x sdk True False True for x]
    by (simp add: sdk_share native_share_def)
  ultimately show ?thesis using in_range foreign flags by simp
qed

subsection \<open>The timestamp and size codec\<close>


subsection \<open>The bounds guard of Read and Write\<close>

text \<open>
  C3. For every handle, array, offset and count where the offset plus the count
  exceeds the length of the array, \<^verbatim>\<open>Read\<close> and \<^verbatim>\<open>Write\<close> return 0, the error
  parameter holds \<^verbatim>\<open>ERROR_SUCCESS\<close>, and the only event is the store of
  \<^verbatim>\<open>ERROR_SUCCESS\<close>: no call into the operating system is made.
\<close>

theorem read_write_bounds_guard:
  assumes "uint (mono_array_length buffer) < sint offset + sint count"
  shows "fst (ves_icall_System_IO_MonoIO_Read sys handle buffer offset count w) = 0 \<and>
         error (snd (ves_icall_System_IO_MonoIO_Read sys handle buffer offset count w)) = ERROR_SUCCESS \<and>
         log (snd (ves_icall_System_IO_MonoIO_Read sys handle buffer offset count w)) =
           log w @ [Error_write ERROR_SUCCESS] \<and>
         fst (ves_icall_System_IO_MonoIO_Write sys handle buffer offset count w) = 0 \<and>
         error (snd (ves_icall_System_IO_MonoIO_Write sys handle buffer offset count w)) = ERROR_SUCCESS \<and>
         log (snd (ves_icall_System_IO_MonoIO_Write sys handle buffer offset count w)) =
           log w @ [Error_write ERROR_SUCCESS]"
  using guard_of_sum [OF assms]
  by (simp add: ves_icall_System_IO_MonoIO_Read_def ves_icall_System_IO_MonoIO_Write_def
      Let_def set_error_def)

theorem read_write_bounds_guard_witness:
  "uint (mono_array_length \<lparr>max_length = 4, vector = [1, 2, 3, 4]\<rparr>) < sint (2 :: gint32) + sint (3 :: gint32) \<and>
   fst (ves_icall_System_IO_MonoIO_Read accepting 3 \<lparr>max_length = 4, vector = [1, 2, 3, 4]\<rparr> 2 3 fresh_world) = 0 \<and>
   error (snd (ves_icall_System_IO_MonoIO_Read accepting 3 \<lparr>max_length = 4, vector = [1, 2, 3, 4]\<rparr> 2 3 fresh_world)) = 0 \<and>
   log (snd (ves_icall_System_IO_MonoIO_Write accepting 3 \<lparr>max_length = 4, vector = [1, 2, 3, 4]\<rparr> 2 3 fresh_world)) = [Error_write 0]"
proof -
  have over: "uint (mono_array_length \<lparr>max_length = 4, vector = [1, 2, 3, 4]\<rparr>)
      < sint (2 :: gint32) + sint (3 :: gint32)"
    by (simp add: mono_array_length_def)
  show ?thesis
    using over read_write_bounds_guard [OF over, of accepting 3 fresh_world]
    by (simp add: ERROR_SUCCESS_def fresh_world_def)
qed

subsection \<open>The sentinel of Seek\<close>

text \<open>
  C10. \<^verbatim>\<open>Seek\<close> returns the position assembled from the low word
  \<^verbatim>\<open>SetFilePointer\<close> returns and the high word it leaves, in every case. Whenever
  the low word is 0xFFFFFFFF the error parameter is stored again, with the value
  \<^verbatim>\<open>GetLastError\<close> gives, whatever else the call reports: a successful seek to a
  position with that low word is not told apart from a failure.
\<close>

theorem seek_sentinel:
  "let q = SetFilePointer handle (low_word offset) (high_word offset) (convert_seekorigin h origin);
       r = sys q (set_error ERROR_SUCCESS w);
       (ret, w') = ves_icall_System_IO_MonoIO_Seek h sys handle offset origin w
   in ret = ucast (dword r) OR push_bit 32 (scast (high r)) \<and>
      (dword r = 0xFFFFFFFF \<longrightarrow>
         error w' = err r \<and>
         events_since w w' = [Error_write ERROR_SUCCESS, Native q, Error_write (err r)])"
  by (simp add: ves_icall_System_IO_MonoIO_Seek_def Let_def native_def set_error_def
      GetLastError_def INVALID_SET_FILE_POINTER_def split_def ucast_eq_iff events_since_def)

theorem seek_sentinel_witness:
  "dword (at_4g_minus_1 (SetFilePointer 3 0xFFFFFFFF 0 (sdk FILE_BEGIN))
            (set_error ERROR_SUCCESS stale_world)) = 0xFFFFFFFF \<and>
   fst (ves_icall_System_IO_MonoIO_Seek sdk at_4g_minus_1 3 0xFFFFFFFF (sdk SeekOrigin_Begin)
          stale_world) = 0xFFFFFFFF \<and>
   error (snd (ves_icall_System_IO_MonoIO_Seek sdk at_4g_minus_1 3 0xFFFFFFFF
                 (sdk SeekOrigin_Begin) stale_world)) = 2"
proof -
  have lo: "low_word 0xFFFFFFFF = 0xFFFFFFFF" and hi: "high_word 0xFFFFFFFF = 0"
    by (simp_all add: low_word_def high_word_def)
  have org: "convert_seekorigin sdk (sdk SeekOrigin_Begin) = sdk FILE_BEGIN"
    by (simp add: convert_seekorigin_def)
  show ?thesis
    using seek_sentinel [of 3 "0xFFFFFFFF" sdk "sdk SeekOrigin_Begin" at_4g_minus_1 stale_world]
    by (simp add: Let_def split_def lo hi org at_4g_minus_1_def plain_reply_def
        set_error_def stale_world_def)
qed

subsection \<open>The four steps of SetLength\<close>

text \<open>
  C6, as the code has it. \<^verbatim>\<open>SetLength\<close> makes its calls in this order: it queries
  the current position (\<open>qa\<close>), moves the pointer to the target length (\<open>qb\<close>),
  sets the end of the file (\<open>qc\<close>) and moves the pointer back to the position the
  first call reported (\<open>qd\<close>). The first of them that returns its failure value
  (the sentinel \<^verbatim>\<open>INVALID_SET_FILE_POINTER\<close> for a move of the pointer, \<^verbatim>\<open>FALSE\<close>
  for the end of the file) ends the operation: the error parameter holds the
  last-error value of that call, the result is \<^verbatim>\<open>FALSE\<close>, and none of the later
  calls is made. Where none returns its failure value all four are made, the result
  is the one of \<^verbatim>\<open>SetEndOfFile\<close> and the error parameter holds
  \<^verbatim>\<open>ERROR_SUCCESS\<close>. The sentinel is tested alone, so a move that succeeded and
  reports a position whose low word is the sentinel ends the operation too.
\<close>

theorem set_length_steps:
  "let w1 = set_error ERROR_SUCCESS w;
       qa = SetFilePointer handle 0 0 (h FILE_CURRENT);
       a = sys qa w1;
       w2 = snd (native sys qa w1);
       qb = SetFilePointer handle (low_word len) (high_word len) (h FILE_BEGIN);
       b = sys qb w2;
       w3 = snd (native sys qb w2);
       qc = SetEndOfFile handle;
       c = sys qc w3;
       w4 = snd (native sys qc w3);
       qd = SetFilePointer handle (dword a) (high a) (h FILE_BEGIN);
       d = sys qd w4;
       (ret, w') = ves_icall_System_IO_MonoIO_SetLength h sys handle len w
   in (dword a = INVALID_SET_FILE_POINTER \<longrightarrow>
         ret = 0 \<and> error w' = err a \<and> calls_of (events_since w w') = [qa]) \<and>
      (dword a \<noteq> INVALID_SET_FILE_POINTER \<and> dword b = INVALID_SET_FILE_POINTER \<longrightarrow>
         ret = 0 \<and> error w' = err b \<and> calls_of (events_since w w') = [qa, qb]) \<and>
      (dword a \<noteq> INVALID_SET_FILE_POINTER \<and> dword b \<noteq> INVALID_SET_FILE_POINTER \<and> \<not> ok c \<longrightarrow>
         ret = 0 \<and> error w' = err c \<and> calls_of (events_since w w') = [qa, qb, qc]) \<and>
      (dword a \<noteq> INVALID_SET_FILE_POINTER \<and> dword b \<noteq> INVALID_SET_FILE_POINTER \<and> ok c \<and>
       dword d = INVALID_SET_FILE_POINTER \<longrightarrow>
         ret = 0 \<and> error w' = err d \<and> calls_of (events_since w w') = [qa, qb, qc, qd]) \<and>
      (dword a \<noteq> INVALID_SET_FILE_POINTER \<and> dword b \<noteq> INVALID_SET_FILE_POINTER \<and> ok c \<and>
       dword d \<noteq> INVALID_SET_FILE_POINTER \<longrightarrow>
         ret = ucast (gbool c) \<and> error w' = ERROR_SUCCESS \<and> calls_of (events_since w w') = [qa, qb, qc, qd])"
  by (simp add: ves_icall_System_IO_MonoIO_SetLength_def Let_def split_def world_simps
      ucast_eq_iff low_word_ucast ok_def)

lemma sample_length: "low_word 0x100000002 = 2" "high_word 0x100000002 = 1"
  by (simp_all add: low_word_def high_word_def)

lemmas sample_defs = failing_at_def accepting_def plain_reply_def failed_reply_def
  fresh_world_def INVALID_SET_FILE_POINTER_def ERROR_SUCCESS_def GetLastError_def ok_def

theorem set_length_steps_witness:
  "(fst (ves_icall_System_IO_MonoIO_SetLength sdk (failing_at 0) 3 0x100000002 fresh_world) = 0 \<and>
    error (snd (ves_icall_System_IO_MonoIO_SetLength sdk (failing_at 0) 3 0x100000002 fresh_world)) = 5 \<and>
    calls_of (events_since fresh_world
      (snd (ves_icall_System_IO_MonoIO_SetLength sdk (failing_at 0) 3 0x100000002 fresh_world))) =
      [SetFilePointer 3 0 0 1]) \<and>
   (fst (ves_icall_System_IO_MonoIO_SetLength sdk (failing_at 1) 3 0x100000002 fresh_world) = 0 \<and>
    error (snd (ves_icall_System_IO_MonoIO_SetLength sdk (failing_at 1) 3 0x100000002 fresh_world)) = 5 \<and>
    calls_of (events_since fresh_world
      (snd (ves_icall_System_IO_MonoIO_SetLength sdk (failing_at 1) 3 0x100000002 fresh_world))) =
      [SetFilePointer 3 0 0 1, SetFilePointer 3 2 1 0]) \<and>
   (fst (ves_icall_System_IO_MonoIO_SetLength sdk (failing_at 2) 3 0x100000002 fresh_world) = 0 \<and>
    error (snd (ves_icall_System_IO_MonoIO_SetLength sdk (failing_at 2) 3 0x100000002 fresh_world)) = 5 \<and>
    calls_of (events_since fresh_world
      (snd (ves_icall_System_IO_MonoIO_SetLength sdk (failing_at 2) 3 0x100000002 fresh_world))) =
      [SetFilePointer 3 0 0 1, SetFilePointer 3 2 1 0, SetEndOfFile 3]) \<and>
   (fst (ves_icall_System_IO_MonoIO_SetLength sdk (failing_at 3) 3 0x100000002 fresh_world) = 0 \<and>
    error (snd (ves_icall_System_IO_MonoIO_SetLength sdk (failing_at 3) 3 0x100000002 fresh_world)) = 5 \<and>
    calls_of (events_since fresh_world
      (snd (ves_icall_System_IO_MonoIO_SetLength sdk (failing_at 3) 3 0x100000002 fresh_world))) =
      [SetFilePointer 3 0 0 1, SetFilePointer 3 2 1 0, SetEndOfFile 3, SetFilePointer 3 0x10 0 0]) \<and>
   (fst (ves_icall_System_IO_MonoIO_SetLength sdk accepting 3 0x100000002 fresh_world) = 1 \<and>
    error (snd (ves_icall_System_IO_MonoIO_SetLength sdk accepting 3 0x100000002 fresh_world)) = 0 \<and>
    calls_of (events_since fresh_world
      (snd (ves_icall_System_IO_MonoIO_SetLength sdk accepting 3 0x100000002 fresh_world))) =
      [SetFilePointer 3 0 0 1, SetFilePointer 3 2 1 0, SetEndOfFile 3, SetFilePointer 3 0x10 0 0])"
proof (intro conjI)
  note step = set_length_steps [where handle = 3 and h = sdk and len = "0x100000002"
      and w = fresh_world, unfolded Let_def split_def sample_length sdk_seek]
  note s0 = step [where sys = "failing_at 0"]
  note s1 = step [where sys = "failing_at 1"]
  note s2 = step [where sys = "failing_at 2"]
  note s3 = step [where sys = "failing_at 3"]
  note s4 = step [where sys = accepting]
  show "fst (ves_icall_System_IO_MonoIO_SetLength sdk (failing_at 0) 3 0x100000002 fresh_world) = 0"
    "error (snd (ves_icall_System_IO_MonoIO_SetLength sdk (failing_at 0) 3 0x100000002 fresh_world)) = 5"
    "calls_of (events_since fresh_world
      (snd (ves_icall_System_IO_MonoIO_SetLength sdk (failing_at 0) 3 0x100000002 fresh_world))) =
      [SetFilePointer 3 0 0 1]"
    using s0 by (simp_all add: sample_defs world_simps)
  show "fst (ves_icall_System_IO_MonoIO_SetLength sdk (failing_at 1) 3 0x100000002 fresh_world) = 0"
    "error (snd (ves_icall_System_IO_MonoIO_SetLength sdk (failing_at 1) 3 0x100000002 fresh_world)) = 5"
    "calls_of (events_since fresh_world
      (snd (ves_icall_System_IO_MonoIO_SetLength sdk (failing_at 1) 3 0x100000002 fresh_world))) =
      [SetFilePointer 3 0 0 1, SetFilePointer 3 2 1 0]"
    using s1 by (simp_all add: sample_defs world_simps)
  show "fst (ves_icall_System_IO_MonoIO_SetLength sdk (failing_at 2) 3 0x100000002 fresh_world) = 0"
    "error (snd (ves_icall_System_IO_MonoIO_SetLength sdk (failing_at 2) 3 0x100000002 fresh_world)) = 5"
    "calls_of (events_since fresh_world
      (snd (ves_icall_System_IO_MonoIO_SetLength sdk (failing_at 2) 3 0x100000002 fresh_world))) =
      [SetFilePointer 3 0 0 1, SetFilePointer 3 2 1 0, SetEndOfFile 3]"
    using s2 by (simp_all add: sample_defs world_simps)
  show "fst (ves_icall_System_IO_MonoIO_SetLength sdk (failing_at 3) 3 0x100000002 fresh_world) = 0"
    "error (snd (ves_icall_System_IO_MonoIO_SetLength sdk (failing_at 3) 3 0x100000002 fresh_world)) = 5"
    "calls_of (events_since fresh_world
      (snd (ves_icall_System_IO_MonoIO_SetLength sdk (failing_at 3) 3 0x100000002 fresh_world))) =
      [SetFilePointer 3 0 0 1, SetFilePointer 3 2 1 0, SetEndOfFile 3, SetFilePointer 3 0x10 0 0]"
    using s3 by (simp_all add: sample_defs world_simps)
  show "fst (ves_icall_System_IO_MonoIO_SetLength sdk accepting 3 0x100000002 fresh_world) = 1"
    "error (snd (ves_icall_System_IO_MonoIO_SetLength sdk accepting 3 0x100000002 fresh_world)) = 0"
    "calls_of (events_since fresh_world
      (snd (ves_icall_System_IO_MonoIO_SetLength sdk accepting 3 0x100000002 fresh_world))) =
      [SetFilePointer 3 0 0 1, SetFilePointer 3 2 1 0, SetEndOfFile 3, SetFilePointer 3 0x10 0 0]"
    using s4 by (simp_all add: sample_defs world_simps)
qed

text \<open>
  C6 as stated does not hold: with every call succeeding, \<^verbatim>\<open>SetLength\<close> to the
  length 0xFFFFFFFF makes the first two calls only and returns \<^verbatim>\<open>FALSE\<close>, because
  the move to the target position reports the low word 0xFFFFFFFF.
\<close>

theorem set_length_stops_after_successful_move:
  "succeeded (seeking (SetFilePointer 3 0 0 (sdk FILE_CURRENT))
     (set_error ERROR_SUCCESS fresh_world)) \<and>
   succeeded (seeking (SetFilePointer 3 0xFFFFFFFF 0 (sdk FILE_BEGIN))
     (snd (native seeking (SetFilePointer 3 0 0 (sdk FILE_CURRENT))
             (set_error ERROR_SUCCESS fresh_world)))) \<and>
   fst (ves_icall_System_IO_MonoIO_SetLength sdk seeking 3 0xFFFFFFFF fresh_world) = 0 \<and>
   error (snd (ves_icall_System_IO_MonoIO_SetLength sdk seeking 3 0xFFFFFFFF fresh_world)) = 0 \<and>
   calls_of (events_since fresh_world
     (snd (ves_icall_System_IO_MonoIO_SetLength sdk seeking 3 0xFFFFFFFF fresh_world))) =
     [SetFilePointer 3 0 0 (sdk FILE_CURRENT), SetFilePointer 3 0xFFFFFFFF 0 (sdk FILE_BEGIN)]"
proof -
  have lo: "low_word 0xFFFFFFFF = 0xFFFFFFFF" and hi: "high_word 0xFFFFFFFF = 0"
    by (simp_all add: low_word_def high_word_def)
  show ?thesis
    by (simp add: ves_icall_System_IO_MonoIO_SetLength_def Let_def split_def world_simps
        ucast_eq_iff lo hi sdk_seek seeking_def plain_reply_def fresh_world_def
        INVALID_SET_FILE_POINTER_def ERROR_SUCCESS_def native_last_error_raw
        set_error_last_error_raw)
qed

subsection \<open>Failure of FindFirstFile\<close>

text \<open>
  C5. Where \<^verbatim>\<open>FindFirstFile\<close> returns \<^verbatim>\<open>INVALID_HANDLE_VALUE\<close> and the last
  error is \<^verbatim>\<open>ERROR_FILE_NOT_FOUND\<close>, \<^verbatim>\<open>GetFileSystemEntries\<close> returns an empty
  array and the error parameter holds \<^verbatim>\<open>ERROR_SUCCESS\<close>. With any other last error
  it returns \<^verbatim>\<open>NULL\<close> and the error parameter holds that error.
\<close>

theorem find_first_failure:
  "let q = get_remapped_path hook path_with_pattern;
       f = sys (FindFirstFile q) (set_error ERROR_SUCCESS w);
       (ret, w') = ves_icall_System_IO_MonoIO_GetFileSystemEntries h hook se sys path
                     path_with_pattern attrs attr_mask w
   in (found f = [] \<and> err f = h ERROR_FILE_NOT_FOUND \<longrightarrow>
         ret = Some [] \<and> error w' = ERROR_SUCCESS) \<and>
      (found f = [] \<and> err f \<noteq> h ERROR_FILE_NOT_FOUND \<longrightarrow>
         ret = None \<and> error w' = err f)"
  by (simp add: ves_icall_System_IO_MonoIO_GetFileSystemEntries_def Let_def split_def
      world_simps)

theorem find_first_failure_witness:
  "fst (ves_icall_System_IO_MonoIO_GetFileSystemEntries sdk None sample_strings
          (listing [] 2 True 0) sample_dir sample_pattern 0 0 fresh_world) = Some [] \<and>
   error (snd (ves_icall_System_IO_MonoIO_GetFileSystemEntries sdk None sample_strings
          (listing [] 2 True 0) sample_dir sample_pattern 0 0 fresh_world)) = 0 \<and>
   fst (ves_icall_System_IO_MonoIO_GetFileSystemEntries sdk None sample_strings
          (listing [] 3 True 0) sample_dir sample_pattern 0 0 fresh_world) = None \<and>
   error (snd (ves_icall_System_IO_MonoIO_GetFileSystemEntries sdk None sample_strings
          (listing [] 3 True 0) sample_dir sample_pattern 0 0 fresh_world)) = 3"
  using
    find_first_failure [of None sample_pattern "listing [] 2 True 0" fresh_world sdk
      sample_strings sample_dir 0 0]
    find_first_failure [of None sample_pattern "listing [] 3 True 0" fresh_world sdk
      sample_strings sample_dir 0 0]
  by (simp add: Let_def split_def no_hook listing_replies sdk_errors ERROR_SUCCESS_def)

subsection \<open>Failure of FindClose\<close>

text \<open>
  C8. Where the enumeration was opened and \<^verbatim>\<open>FindClose\<close>, called after
  \<^verbatim>\<open>FindNextFile\<close> has reported the end of the entries, fails,
  \<^verbatim>\<open>GetFileSystemEntries\<close> returns \<^verbatim>\<open>NULL\<close> and the error parameter holds the
  last error of \<^verbatim>\<open>FindClose\<close>: the names collected are dropped. The calls made
  are \<^verbatim>\<open>FindFirstFile\<close>, one \<^verbatim>\<open>FindNextFile\<close> for each entry, the last of which
  reports the end, and \<^verbatim>\<open>FindClose\<close>.
\<close>

theorem find_close_failure:
  "let p = get_remapped_path hook path;
       q = get_remapped_path hook path_with_pattern;
       w1 = set_error ERROR_SUCCESS w;
       f = sys (FindFirstFile q) w1;
       w2 = snd (native sys (FindFirstFile q) w1);
       w3 = snd (find_loop se sys (convert_attrs h attr_mask) attrs (mono_string_to_utf8 se p)
                   (hd (found f)) (tl (found f)) [] w2);
       c = sys FindClose w3;
       (ret, w') = ves_icall_System_IO_MonoIO_GetFileSystemEntries h hook se sys path
                     path_with_pattern attrs attr_mask w
   in found f \<noteq> [] \<and> \<not> ok c \<longrightarrow>
        ret = None \<and> error w' = err c \<and>
        calls_of (events_since w w') =
          FindFirstFile q # replicate (length (found f)) FindNextFile @ [FindClose]"
  by (cases "found (sys (FindFirstFile (get_remapped_path hook path_with_pattern))
                      (set_error ERROR_SUCCESS w))")
     (simp_all add: ves_icall_System_IO_MonoIO_GetFileSystemEntries_def Let_def split_def
      world_simps loop_simps ok_def)

theorem find_close_failure_witness:
  "fst (ves_icall_System_IO_MonoIO_GetFileSystemEntries sdk None sample_strings
          (listing sample_entries 0 False 6) sample_dir sample_pattern 0 0 fresh_world) = None \<and>
   error (snd (ves_icall_System_IO_MonoIO_GetFileSystemEntries sdk None sample_strings
          (listing sample_entries 0 False 6) sample_dir sample_pattern 0 0 fresh_world)) = 6 \<and>
   calls_of (events_since fresh_world
      (snd (ves_icall_System_IO_MonoIO_GetFileSystemEntries sdk None sample_strings
          (listing sample_entries 0 False 6) sample_dir sample_pattern 0 0 fresh_world))) =
     [FindFirstFile sample_pattern, FindNextFile, FindNextFile, FindNextFile, FindNextFile,
      FindClose]"
  using
    find_close_failure [of None sample_dir sample_pattern fresh_world
      "listing sample_entries 0 False 6" sample_strings sdk 0 0]
  by (simp add: Let_def split_def no_hook listing_replies sample_entries_def)

subsection \<open>The entries an enumeration returns\<close>

text \<open>
  C4, as the code has it. Where the enumeration was opened and an array is
  returned, the array holds, in the order of the enumeration, the full names of
  exactly the entries that are listed: those that are no dot entry, whose attributes
  under the mask equal the value, and whose name converts to UTF-8. The mask is the
  one \<^verbatim>\<open>convert_attrs\<close> makes of the argument. A dot entry is never among them;
  with mask and value 0 every entry that is no dot entry and whose name converts is
  returned.
\<close>

theorem enumeration_result:
  "let p = get_remapped_path hook path;
       q = get_remapped_path hook path_with_pattern;
       f = sys (FindFirstFile q) (set_error ERROR_SUCCESS w);
       (ret, w') = ves_icall_System_IO_MonoIO_GetFileSystemEntries h hook se sys path
                     path_with_pattern attrs attr_mask w
   in (found f \<noteq> [] \<and> ret \<noteq> None \<longrightarrow>
         ret = Some (map (full_name se (mono_string_to_utf8 se p))
                       (filter (listed se (convert_attrs h attr_mask) attrs) (found f)))) \<and>
      (found f \<noteq> [] \<and> ret \<noteq> None \<and> attr_mask = 0 \<and> attrs = 0 \<longrightarrow>
         ret = Some (map (full_name se (mono_string_to_utf8 se p))
                       (filter (\<lambda>e. \<not> is_dot_entry e \<and>
                                    g_utf16_to_utf8 se (c_string (cFileName e)) \<noteq> None)
                          (found f))))"
  by (cases "found (sys (FindFirstFile (get_remapped_path hook path_with_pattern))
                      (set_error ERROR_SUCCESS w))")
     (auto simp add: ves_icall_System_IO_MonoIO_GetFileSystemEntries_def Let_def split_def
      world_simps loop_simps convert_attrs_0 listed_unmasked)

theorem enumeration_result_witness:
  "found (listing sample_entries 0 True 0 (FindFirstFile sample_pattern)
            (set_error ERROR_SUCCESS fresh_world)) \<noteq> [] \<and>
   fst (ves_icall_System_IO_MonoIO_GetFileSystemEntries sdk None sample_strings
          (listing sample_entries 0 True 0) sample_dir sample_pattern 0x10 0x10 fresh_world) =
     Some [''d/s''] \<and>
   fst (ves_icall_System_IO_MonoIO_GetFileSystemEntries sdk None sample_strings
          (listing sample_entries 0 True 0) sample_dir sample_pattern 0 0 fresh_world) =
     Some [''d/a'', ''d/s'']"
proof -
  have opened: "found (listing sample_entries 0 True 0 (FindFirstFile sample_pattern)
      (set_error ERROR_SUCCESS fresh_world)) = sample_entries"
    by (simp add: listing_replies sample_entries_def)
  have nonempty: "sample_entries \<noteq> []"
    by (simp add: sample_entries_def)
  have returned:
    "fst (ves_icall_System_IO_MonoIO_GetFileSystemEntries sdk None sample_strings
          (listing sample_entries 0 True 0) sample_dir sample_pattern a m fresh_world) \<noteq> None"
    for a m
    by (simp add: ves_icall_System_IO_MonoIO_GetFileSystemEntries_def Let_def split_def
        no_hook listing_replies sample_entries_def world_simps)
  have dirs: "fst (ves_icall_System_IO_MonoIO_GetFileSystemEntries sdk None sample_strings
          (listing sample_entries 0 True 0) sample_dir sample_pattern 0x10 0x10 fresh_world) =
     Some [''d/s'']"
    using enumeration_result [of None sample_dir sample_pattern "listing sample_entries 0 True 0"
        fresh_world sdk sample_strings "0x10" "0x10"] returned [of "0x10" "0x10"] nonempty
    by (simp add: Let_def split_def no_hook opened convert_attrs_dir sample_listed
        sample_names sample_full_names)
  have every: "fst (ves_icall_System_IO_MonoIO_GetFileSystemEntries sdk None sample_strings
          (listing sample_entries 0 True 0) sample_dir sample_pattern 0 0 fresh_world) =
     Some [''d/a'', ''d/s'']"
    using enumeration_result [of None sample_dir sample_pattern "listing sample_entries 0 True 0"
        fresh_world sdk sample_strings 0 0] returned [of 0 0] nonempty
    by (simp add: Let_def split_def no_hook opened convert_attrs_0 sample_unmasked
        sample_names sample_full_names)
  show ?thesis using opened nonempty dirs every by simp
qed

text \<open>
  C4 as stated does not hold: an entry that is no dot entry and passes the attribute
  test is left out where \<^verbatim>\<open>g_utf16_to_utf8\<close> returns \<^verbatim>\<open>NULL\<close> for its name,
  as for a name that is one surrogate code unit.
\<close>

theorem enumeration_skips_unconvertible_name:
  "entry 0x20 [0xD800] \<in> set odd_entries \<and>
   \<not> is_dot_entry (entry 0x20 [0xD800]) \<and>
   dwFileAttributes (entry 0x20 [0xD800]) AND 0 = 0 \<and>
   fst (ves_icall_System_IO_MonoIO_GetFileSystemEntries sdk None sample_strings
          (listing odd_entries 0 True 0) sample_dir sample_pattern 0 0 fresh_world) =
     Some [''d/a'']"
  by (simp add: ves_icall_System_IO_MonoIO_GetFileSystemEntries_def Let_def split_def
      no_hook listing_replies odd_entries_def world_simps loop_simps convert_attrs_0
      listed_def sample_dots entry_fields sample_c_strings sample_names sample_full_names)

subsection \<open>Attribute queries and the FindFirstFile fallback\<close>

text \<open>
  C1, as the code has it, for \<^verbatim>\<open>GetFileAttributes\<close> and for \<^verbatim>\<open>GetFileStat\<close>.
  The direct query (\<open>qd\<close>) is the first call. Where it succeeds its result is
  returned with \<^verbatim>\<open>ERROR_SUCCESS\<close> and nothing else is called. Where it fails with
  a last error other than \<^verbatim>\<open>ERROR_SHARING_VIOLATION\<close>, the failure value is
  returned with that error and nothing else is called. Where it fails with
  \<^verbatim>\<open>ERROR_SHARING_VIOLATION\<close>, \<^verbatim>\<open>FindFirstFile\<close> is called on the same path
  (\<open>qf\<close>): if it finds an entry, \<^verbatim>\<open>FindClose\<close> is called and the attributes of
  the entry are returned, with \<^verbatim>\<open>ERROR_SUCCESS\<close> (for \<^verbatim>\<open>GetFileAttributes\<close>
  unless the attribute word is itself the failure value \<^verbatim>\<open>-1\<close>); if it fails, the
  failure value of the direct query is returned and the error parameter holds the
  last error that \<^verbatim>\<open>FindFirstFile\<close> leaves.
\<close>

theorem attribute_query_fallback:
  "(let p = get_remapped_path hook path;
        w1 = set_error ERROR_SUCCESS w;
        qd = GetFileAttributes p;
        d = sys qd w1;
        qf = FindFirstFile p;
        f = sys qf (snd (native sys qd w1));
        (ret, w') = ves_icall_System_IO_MonoIO_GetFileAttributes h hook sys path w;
        cs = calls_of (events_since w w')
    in (dword d \<noteq> - 1 \<longrightarrow> ret = dword d \<and> error w' = ERROR_SUCCESS \<and> cs = [qd]) \<and>
       (dword d = - 1 \<and> err d \<noteq> h ERROR_SHARING_VIOLATION \<longrightarrow>
          ret = - 1 \<and> error w' = err d \<and> cs = [qd]) \<and>
       (dword d = - 1 \<and> err d = h ERROR_SHARING_VIOLATION \<and> found f \<noteq> [] \<longrightarrow>
          ret = dwFileAttributes (hd (found f)) \<and> cs = [qd, qf, FindClose] \<and>
          (ret \<noteq> - 1 \<longrightarrow> error w' = ERROR_SUCCESS)) \<and>
       (dword d = - 1 \<and> err d = h ERROR_SHARING_VIOLATION \<and> found f = [] \<longrightarrow>
          ret = - 1 \<and> error w' = err f \<and> cs = [qd, qf])) \<and>
   (let p = get_remapped_path hook path;
        w1 = set_error ERROR_SUCCESS w;
        qd = GetFileAttributesEx p;
        d = sys qd w1;
        qf = FindFirstFile p;
        f = sys qf (snd (native sys qd w1));
        ((ret, st), w') = ves_icall_System_IO_MonoIO_GetFileStat h hook sys path data w;
        cs = calls_of (events_since w w')
    in (ok d \<longrightarrow>
          ret \<and> st = convert_win32_file_attribute_data (attr_data d) p \<and>
          error w' = ERROR_SUCCESS \<and> cs = [qd]) \<and>
       (\<not> ok d \<and> err d \<noteq> h ERROR_SHARING_VIOLATION \<longrightarrow>
          \<not> ret \<and> st = zero_stat \<and> error w' = err d \<and> cs = [qd]) \<and>
       (\<not> ok d \<and> err d = h ERROR_SHARING_VIOLATION \<and> found f \<noteq> [] \<longrightarrow>
          ret \<and> stat_attributes st = dwFileAttributes (hd (found f)) \<and>
          error w' = ERROR_SUCCESS \<and> cs = [qd, qf, FindClose]) \<and>
       (\<not> ok d \<and> err d = h ERROR_SHARING_VIOLATION \<and> found f = [] \<longrightarrow>
          \<not> ret \<and> st = zero_stat \<and> error w' = err f \<and> cs = [qd, qf]))"
proof (intro conjI)
  let ?p = "get_remapped_path hook path"
  let ?w1 = "set_error ERROR_SUCCESS w"
  show "let p = get_remapped_path hook path;
        w1 = set_error ERROR_SUCCESS w;
        qd = GetFileAttributes p;
        d = sys qd w1;
        qf = FindFirstFile p;
        f = sys qf (snd (native sys qd w1));
        (ret, w') = ves_icall_System_IO_MonoIO_GetFileAttributes h hook sys path w;
        cs = calls_of (events_since w w')
    in (dword d \<noteq> - 1 \<longrightarrow> ret = dword d \<and> error w' = ERROR_SUCCESS \<and> cs = [qd]) \<and>
       (dword d = - 1 \<and> err d \<noteq> h ERROR_SHARING_VIOLATION \<longrightarrow>
          ret = - 1 \<and> error w' = err d \<and> cs = [qd]) \<and>
       (dword d = - 1 \<and> err d = h ERROR_SHARING_VIOLATION \<and> found f \<noteq> [] \<longrightarrow>
          ret = dwFileAttributes (hd (found f)) \<and> cs = [qd, qf, FindClose] \<and>
          (ret \<noteq> - 1 \<longrightarrow> error w' = ERROR_SUCCESS)) \<and>
       (dword d = - 1 \<and> err d = h ERROR_SHARING_VIOLATION \<and> found f = [] \<longrightarrow>
          ret = - 1 \<and> error w' = err f \<and> cs = [qd, qf])"
    by (cases "found (sys (FindFirstFile ?p) (snd (native sys (GetFileAttributes ?p) ?w1)))")
       (simp_all add: ves_icall_System_IO_MonoIO_GetFileAttributes_def get_file_attributes_def
        Let_def split_def world_simps)
  show "let p = get_remapped_path hook path;
        w1 = set_error ERROR_SUCCESS w;
        qd = GetFileAttributesEx p;
        d = sys qd w1;
        qf = FindFirstFile p;
        f = sys qf (snd (native sys qd w1));
        ((ret, st), w') = ves_icall_System_IO_MonoIO_GetFileStat h hook sys path data w;
        cs = calls_of (events_since w w')
    in (ok d \<longrightarrow>
          ret \<and> st = convert_win32_file_attribute_data (attr_data d) p \<and>
          error w' = ERROR_SUCCESS \<and> cs = [qd]) \<and>
       (\<not> ok d \<and> err d \<noteq> h ERROR_SHARING_VIOLATION \<longrightarrow>
          \<not> ret \<and> st = zero_stat \<and> error w' = err d \<and> cs = [qd]) \<and>
       (\<not> ok d \<and> err d = h ERROR_SHARING_VIOLATION \<and> found f \<noteq> [] \<longrightarrow>
          ret \<and> stat_attributes st = dwFileAttributes (hd (found f)) \<and>
          error w' = ERROR_SUCCESS \<and> cs = [qd, qf, FindClose]) \<and>
       (\<not> ok d \<and> err d = h ERROR_SHARING_VIOLATION \<and> found f = [] \<longrightarrow>
          \<not> ret \<and> st = zero_stat \<and> error w' = err f \<and> cs = [qd, qf])"
    by (cases "found (sys (FindFirstFile ?p) (snd (native sys (GetFileAttributesEx ?p) ?w1)))")
       (simp_all add: ves_icall_System_IO_MonoIO_GetFileStat_def get_file_attributes_ex_def
        Let_def split_def world_simps convert_win32_file_attribute_data_def ok_def)
qed

theorem attribute_query_fallback_witness:
  "(fst (ves_icall_System_IO_MonoIO_GetFileAttributes sdk None accepting sample_dir
           fresh_world) = 0x10 \<and>
    error (snd (ves_icall_System_IO_MonoIO_GetFileAttributes sdk None accepting sample_dir
           fresh_world)) = 0 \<and>
    calls_of (events_since fresh_world
      (snd (ves_icall_System_IO_MonoIO_GetFileAttributes sdk None accepting sample_dir
           fresh_world))) = [GetFileAttributes sample_dir]) \<and>
   (fst (ves_icall_System_IO_MonoIO_GetFileAttributes sdk None (query_fails 5 [] 0) sample_dir
           fresh_world) = - 1 \<and>
    error (snd (ves_icall_System_IO_MonoIO_GetFileAttributes sdk None (query_fails 5 [] 0)
           sample_dir fresh_world)) = 5 \<and>
    calls_of (events_since fresh_world
      (snd (ves_icall_System_IO_MonoIO_GetFileAttributes sdk None (query_fails 5 [] 0)
           sample_dir fresh_world))) = [GetFileAttributes sample_dir]) \<and>
   (fst (ves_icall_System_IO_MonoIO_GetFileAttributes sdk None
           (query_fails 32 [entry 0x20 [0x61]] 0) sample_dir fresh_world) = 0x20 \<and>
    error (snd (ves_icall_System_IO_MonoIO_GetFileAttributes sdk None
           (query_fails 32 [entry 0x20 [0x61]] 0) sample_dir fresh_world)) = 0 \<and>
    calls_of (events_since fresh_world
      (snd (ves_icall_System_IO_MonoIO_GetFileAttributes sdk None
           (query_fails 32 [entry 0x20 [0x61]] 0) sample_dir fresh_world))) =
      [GetFileAttributes sample_dir, FindFirstFile sample_dir, FindClose]) \<and>
   (fst (ves_icall_System_IO_MonoIO_GetFileAttributes sdk None (query_fails 32 [] 2) sample_dir
           fresh_world) = - 1 \<and>
    error (snd (ves_icall_System_IO_MonoIO_GetFileAttributes sdk None (query_fails 32 [] 2)
           sample_dir fresh_world)) = 2 \<and>
    calls_of (events_since fresh_world
      (snd (ves_icall_System_IO_MonoIO_GetFileAttributes sdk None (query_fails 32 [] 2)
           sample_dir fresh_world))) = [GetFileAttributes sample_dir, FindFirstFile sample_dir]) \<and>
   (fst (fst (ves_icall_System_IO_MonoIO_GetFileStat sdk None accepting sample_dir plain_data
           fresh_world)) \<and>
    error (snd (ves_icall_System_IO_MonoIO_GetFileStat sdk None accepting sample_dir plain_data
           fresh_world)) = 0) \<and>
   (\<not> fst (fst (ves_icall_System_IO_MonoIO_GetFileStat sdk None (query_fails 5 [] 0) sample_dir
           plain_data fresh_world)) \<and>
    error (snd (ves_icall_System_IO_MonoIO_GetFileStat sdk None (query_fails 5 [] 0) sample_dir
           plain_data fresh_world)) = 5) \<and>
   (fst (fst (ves_icall_System_IO_MonoIO_GetFileStat sdk None
           (query_fails 32 [entry 0x20 [0x61]] 0) sample_dir plain_data fresh_world)) \<and>
    stat_attributes (snd (fst (ves_icall_System_IO_MonoIO_GetFileStat sdk None
           (query_fails 32 [entry 0x20 [0x61]] 0) sample_dir plain_data fresh_world))) = 0x20 \<and>
    error (snd (ves_icall_System_IO_MonoIO_GetFileStat sdk None
           (query_fails 32 [entry 0x20 [0x61]] 0) sample_dir plain_data fresh_world)) = 0) \<and>
   (\<not> fst (fst (ves_icall_System_IO_MonoIO_GetFileStat sdk None (query_fails 32 [] 2) sample_dir
           plain_data fresh_world)) \<and>
    error (snd (ves_icall_System_IO_MonoIO_GetFileStat sdk None (query_fails 32 [] 2) sample_dir
           plain_data fresh_world)) = 2 \<and>
    calls_of (events_since fresh_world
      (snd (ves_icall_System_IO_MonoIO_GetFileStat sdk None (query_fails 32 [] 2) sample_dir
           plain_data fresh_world))) = [GetFileAttributesEx sample_dir, FindFirstFile sample_dir])"
proof -
  note inst = attribute_query_fallback [where h = sdk and hook = None and path = sample_dir
      and w = fresh_world and data = plain_data,
      unfolded Let_def split_def no_hook sdk_errors]
  note a = inst [where sys = accepting]
  note b = inst [where sys = "query_fails 5 [] 0"]
  note c = inst [where sys = "query_fails 32 [entry 0x20 [0x61]] 0"]
  note d = inst [where sys = "query_fails 32 [] 2"]
  have ra: "fst (ves_icall_System_IO_MonoIO_GetFileAttributes sdk None accepting sample_dir
           fresh_world) = 0x10 \<and>
    error (snd (ves_icall_System_IO_MonoIO_GetFileAttributes sdk None accepting sample_dir
           fresh_world)) = 0 \<and>
    calls_of (events_since fresh_world
      (snd (ves_icall_System_IO_MonoIO_GetFileAttributes sdk None accepting sample_dir
           fresh_world))) = [GetFileAttributes sample_dir] \<and>
    fst (fst (ves_icall_System_IO_MonoIO_GetFileStat sdk None accepting sample_dir plain_data
           fresh_world)) \<and>
    error (snd (ves_icall_System_IO_MonoIO_GetFileStat sdk None accepting sample_dir plain_data
           fresh_world)) = 0"
    using a by (simp add: accepting_replies ERROR_SUCCESS_def)
  have rb: "fst (ves_icall_System_IO_MonoIO_GetFileAttributes sdk None (query_fails 5 [] 0) sample_dir
           fresh_world) = - 1 \<and>
    error (snd (ves_icall_System_IO_MonoIO_GetFileAttributes sdk None (query_fails 5 [] 0)
           sample_dir fresh_world)) = 5 \<and>
    calls_of (events_since fresh_world
      (snd (ves_icall_System_IO_MonoIO_GetFileAttributes sdk None (query_fails 5 [] 0)
           sample_dir fresh_world))) = [GetFileAttributes sample_dir] \<and>
    \<not> fst (fst (ves_icall_System_IO_MonoIO_GetFileStat sdk None (query_fails 5 [] 0) sample_dir
           plain_data fresh_world)) \<and>
    error (snd (ves_icall_System_IO_MonoIO_GetFileStat sdk None (query_fails 5 [] 0) sample_dir
           plain_data fresh_world)) = 5"
    using b by (simp add: query_fails_replies ERROR_SUCCESS_def)
  have rc: "fst (ves_icall_System_IO_MonoIO_GetFileAttributes sdk None
           (query_fails 32 [entry 0x20 [0x61]] 0) sample_dir fresh_world) = 0x20 \<and>
    error (snd (ves_icall_System_IO_MonoIO_GetFileAttributes sdk None
           (query_fails 32 [entry 0x20 [0x61]] 0) sample_dir fresh_world)) = 0 \<and>
    calls_of (events_since fresh_world
      (snd (ves_icall_System_IO_MonoIO_GetFileAttributes sdk None
           (query_fails 32 [entry 0x20 [0x61]] 0) sample_dir fresh_world))) =
      [GetFileAttributes sample_dir, FindFirstFile sample_dir, FindClose] \<and>
    fst (fst (ves_icall_System_IO_MonoIO_GetFileStat sdk None
           (query_fails 32 [entry 0x20 [0x61]] 0) sample_dir plain_data fresh_world)) \<and>
    stat_attributes (snd (fst (ves_icall_System_IO_MonoIO_GetFileStat sdk None
           (query_fails 32 [entry 0x20 [0x61]] 0) sample_dir plain_data fresh_world))) = 0x20 \<and>
    error (snd (ves_icall_System_IO_MonoIO_GetFileStat sdk None
           (query_fails 32 [entry 0x20 [0x61]] 0) sample_dir plain_data fresh_world)) = 0"
    using c by (simp add: query_fails_replies ERROR_SUCCESS_def entry_fields)
  have rd: "fst (ves_icall_System_IO_MonoIO_GetFileAttributes sdk None (query_fails 32 [] 2) sample_dir
           fresh_world) = - 1 \<and>
    error (snd (ves_icall_System_IO_MonoIO_GetFileAttributes sdk None (query_fails 32 [] 2)
           sample_dir fresh_world)) = 2 \<and>
    calls_of (events_since fresh_world
      (snd (ves_icall_System_IO_MonoIO_GetFileAttributes sdk None (query_fails 32 [] 2)
           sample_dir fresh_world))) = [GetFileAttributes sample_dir, FindFirstFile sample_dir] \<and>
    \<not> fst (fst (ves_icall_System_IO_MonoIO_GetFileStat sdk None (query_fails 32 [] 2) sample_dir
           plain_data fresh_world)) \<and>
    error (snd (ves_icall_System_IO_MonoIO_GetFileStat sdk None (query_fails 32 [] 2) sample_dir
           plain_data fresh_world)) = 2 \<and>
    calls_of (events_since fresh_world
      (snd (ves_icall_System_IO_MonoIO_GetFileStat sdk None (query_fails 32 [] 2) sample_dir
           plain_data fresh_world))) = [GetFileAttributesEx sample_dir, FindFirstFile sample_dir]"
    using d by (simp add: query_fails_replies ERROR_SUCCESS_def)
  show ?thesis using ra rb rc rd by blast
qed

text \<open>
  C1 as stated does not hold where the fallback fails too: the error parameter then
  holds the last error of \<^verbatim>\<open>FindFirstFile\<close>, here 2, not the sharing violation 32
  of the direct query.
\<close>

theorem fallback_failure_reports_find_error:
  "dword (query_fails 32 [] 2 (GetFileAttributes sample_dir)
            (set_error ERROR_SUCCESS fresh_world)) = - 1 \<and>
   err (query_fails 32 [] 2 (GetFileAttributes sample_dir)
            (set_error ERROR_SUCCESS fresh_world)) = sdk ERROR_SHARING_VIOLATION \<and>
   fst (ves_icall_System_IO_MonoIO_GetFileAttributes sdk None (query_fails 32 [] 2) sample_dir
          fresh_world) = - 1 \<and>
   error (snd (ves_icall_System_IO_MonoIO_GetFileAttributes sdk None (query_fails 32 [] 2)
                 sample_dir fresh_world)) = 2 \<and>
   error (snd (ves_icall_System_IO_MonoIO_GetFileStat sdk None (query_fails 32 [] 2)
                 sample_dir plain_data fresh_world)) = 2 \<and>
   sdk ERROR_SHARING_VIOLATION = 32"
  by (simp add: ves_icall_System_IO_MonoIO_GetFileAttributes_def get_file_attributes_def
      ves_icall_System_IO_MonoIO_GetFileStat_def get_file_attributes_ex_def
      Let_def split_def world_simps no_hook query_fails_replies sdk_errors)

subsection \<open>The discipline of the error parameter\<close>

text \<open>
  The attribute queries leave the error parameter alone and add calls only.
\<close>

lemma get_file_attributes_error: "error (snd (get_file_attributes h sys p w)) = error w"
  by (simp add: get_file_attributes_def Let_def split_def world_simps split: list.splits)

lemma get_file_attributes_log:
  "\<exists>cs. log (snd (get_file_attributes h sys p w)) = log w @ map Native cs"
proof -
  have "\<exists>cs. xs @ [Native a] = xs @ map Native cs" for xs a
    by (rule exI [of _ "[a]"]) simp
  moreover have "\<exists>cs. xs @ [Native a, Native b] = xs @ map Native cs" for xs a b
    by (rule exI [of _ "[a, b]"]) simp
  moreover have "\<exists>cs. xs @ [Native a, Native b, Native c] = xs @ map Native cs" for xs a b c
    by (rule exI [of _ "[a, b, c]"]) simp
  ultimately show ?thesis
    by (simp add: get_file_attributes_def Let_def split_def world_simps split: list.splits)
qed

lemma get_file_attributes_ex_error:
  "error (snd (get_file_attributes_ex h sys p data w)) = error w"
  by (simp add: get_file_attributes_ex_def Let_def split_def world_simps split: list.splits)

lemma get_file_attributes_ex_log:
  "\<exists>cs. log (snd (get_file_attributes_ex h sys p data w)) = log w @ map Native cs"
proof -
  have "\<exists>cs. xs @ [Native a] = xs @ map Native cs" for xs a
    by (rule exI [of _ "[a]"]) simp
  moreover have "\<exists>cs. xs @ [Native a, Native b] = xs @ map Native cs" for xs a b
    by (rule exI [of _ "[a, b]"]) simp
  moreover have "\<exists>cs. xs @ [Native a, Native b, Native c] = xs @ map Native cs" for xs a b c
    by (rule exI [of _ "[a, b, c]"]) simp
  ultimately show ?thesis
    by (simp add: get_file_attributes_ex_def Let_def split_def world_simps split: list.splits)
qed

lemma no_store_among_calls: "Error_write v \<notin> set (map Native cs)"
  by auto

lemma no_store_in_replicate: "Error_write v \<notin> set (replicate n (Native c))"
  by auto

lemmas disc_simps = disciplined_def Let_def split_def world_simps ok_def

lemma disc_CreateDirectory: "disciplined w (run h hook se sys (Op_CreateDirectory p) w)"
  by (simp add: ves_icall_System_IO_MonoIO_CreateDirectory_def disc_simps)

lemma disc_RemoveDirectory: "disciplined w (run h hook se sys (Op_RemoveDirectory p) w)"
  by (simp add: ves_icall_System_IO_MonoIO_RemoveDirectory_def disc_simps)

lemma disc_GetFileSystemEntries:
  "disciplined w (run h hook se sys (Op_GetFileSystemEntries p q a m) w)"
  by (cases "found (sys (FindFirstFile (get_remapped_path hook q)) (set_error ERROR_SUCCESS w))")
     (simp_all add: ves_icall_System_IO_MonoIO_GetFileSystemEntries_def disc_simps loop_simps)

lemma disc_GetCurrentDirectory: "disciplined w (run h hook se sys Op_GetCurrentDirectory w)"
  by (simp add: ves_icall_System_IO_MonoIO_GetCurrentDirectory_def disc_simps)

lemma disc_SetCurrentDirectory: "disciplined w (run h hook se sys (Op_SetCurrentDirectory p) w)"
  by (simp add: ves_icall_System_IO_MonoIO_SetCurrentDirectory_def disc_simps)

lemma disc_MoveFile: "disciplined w (run h hook se sys (Op_MoveFile p q) w)"
  by (simp add: ves_icall_System_IO_MonoIO_MoveFile_def disc_simps)

lemma disc_ReplaceFile: "disciplined w (run h hook se sys (Op_ReplaceFile p q b i) w)"
  by (simp add: ves_icall_System_IO_MonoIO_ReplaceFile_def disc_simps)

lemma disc_CopyFile: "disciplined w (run h hook se sys (Op_CopyFile p q b) w)"
  by (simp add: ves_icall_System_IO_MonoIO_CopyFile_def disc_simps)

lemma disc_DeleteFile: "disciplined w (run h hook se sys (Op_DeleteFile p) w)"
  by (simp add: ves_icall_System_IO_MonoIO_DeleteFile_def disc_simps)

lemma disc_SetFileAttributes: "disciplined w (run h hook se sys (Op_SetFileAttributes p a) w)"
  by (simp add: ves_icall_System_IO_MonoIO_SetFileAttributes_def disc_simps)

lemma value_GetFileType:
  "stored_by_value w (failure_value_returned h sys (Op_GetFileType fh) w)
     (snd (run h hook se sys (Op_GetFileType fh) w))"
  by (simp add: ves_icall_System_IO_MonoIO_GetFileType_def stored_by_value_def Let_def
      split_def world_simps)

lemma disc_Close: "disciplined w (run h hook se sys (Op_Close fh) w)"
  by (simp add: ves_icall_System_IO_MonoIO_Close_def disc_simps)

lemma disc_Read: "disciplined w (run h hook se sys (Op_Read fh arr off n) w)"
  by (simp add: ves_icall_System_IO_MonoIO_Read_def disc_simps)

lemma disc_Write: "disciplined w (run h hook se sys (Op_Write fh arr off n) w)"
  by (simp add: ves_icall_System_IO_MonoIO_Write_def disc_simps)

lemma value_Seek:
  "stored_by_value w (failure_value_returned h sys (Op_Seek fh off org) w)
     (snd (run h hook se sys (Op_Seek fh off org) w))"
  by (simp add: ves_icall_System_IO_MonoIO_Seek_def stored_by_value_def Let_def split_def
      world_simps low_word_or_scast ucast_eq_iff)

lemma disc_Flush: "disciplined w (run h hook se sys (Op_Flush fh) w)"
  by (simp add: ves_icall_System_IO_MonoIO_Flush_def disc_simps)

lemma value_GetLength:
  "stored_by_value w (failure_value_returned h sys (Op_GetLength fh) w)
     (snd (run h hook se sys (Op_GetLength fh) w))"
  by (simp add: ves_icall_System_IO_MonoIO_GetLength_def stored_by_value_def Let_def split_def
      world_simps low_word_or_ucast ucast_eq_iff)

lemma disc_SetLength: "disciplined w (run h hook se sys (Op_SetLength fh n) w)"
  by (simp add: ves_icall_System_IO_MonoIO_SetLength_def disc_simps)

lemma disc_SetFileTime: "disciplined w (run h hook se sys (Op_SetFileTime fh a b c) w)"
  by (simp add: ves_icall_System_IO_MonoIO_SetFileTime_def disc_simps)

lemma disc_Lock: "disciplined w (run h hook se sys (Op_Lock fh a b) w)"
  by (simp add: ves_icall_System_IO_MonoIO_Lock_def disc_simps)

lemma disc_Unlock: "disciplined w (run h hook se sys (Op_Unlock fh a b) w)"
  by (simp add: ves_icall_System_IO_MonoIO_Unlock_def disc_simps)


lemma disc_GetFileAttributes: "disciplined w (run h hook se sys (Op_GetFileAttributes p) w)"
proof -
  obtain cs where cs: "log (snd (get_file_attributes h sys (get_remapped_path hook p)
      (set_error ERROR_SUCCESS w))) = log (set_error ERROR_SUCCESS w) @ map Native cs"
    using get_file_attributes_log by blast
  show ?thesis
    by (auto simp add: ves_icall_System_IO_MonoIO_GetFileAttributes_def disc_simps cs
        get_file_attributes_error)
qed

lemma disc_GetFileStat: "disciplined w (run h hook se sys (Op_GetFileStat p data) w)"
proof -
  obtain cs where cs: "log (snd (get_file_attributes_ex h sys (get_remapped_path hook p) data
      (set_error ERROR_SUCCESS w))) = log (set_error ERROR_SUCCESS w) @ map Native cs"
    using get_file_attributes_ex_log by blast
  show ?thesis
    by (auto simp add: ves_icall_System_IO_MonoIO_GetFileStat_def disc_simps cs
        get_file_attributes_ex_error)
qed

lemma disc_Open: "disciplined w (run h hook se sys (Op_Open p m a s opt) w)"
proof -
  obtain cs where cs: "log (snd (get_file_attributes h sys (get_remapped_path hook p)
      (set_error ERROR_SUCCESS w))) = log (set_error ERROR_SUCCESS w) @ map Native cs"
    using get_file_attributes_log by blast
  show ?thesis
    by (auto simp add: ves_icall_System_IO_MonoIO_Open_def disc_simps cs
        get_file_attributes_error)
qed

text \<open>
  C9, as the code has it. Every internal call that takes the error parameter stores
  \<^verbatim>\<open>ERROR_SUCCESS\<close> in it as its first event, before any call into the operating
  system. Every one of them other than \<^verbatim>\<open>Seek\<close>, \<^verbatim>\<open>GetLength\<close> and
  \<^verbatim>\<open>GetFileType\<close> stores a second time only in a run that failed, and after a run
  that did not fail the parameter holds \<^verbatim>\<open>ERROR_SUCCESS\<close>. \<^verbatim>\<open>Seek\<close>,
  \<^verbatim>\<open>GetLength\<close> and \<^verbatim>\<open>GetFileType\<close> store a second time only where the value
  they return is the one that reports a failure, and then leave the last-error value
  in the parameter, whether the call into the operating system failed or not; where
  they return another value the parameter holds \<^verbatim>\<open>ERROR_SUCCESS\<close>. The path
  remapping, which precedes the first store, is a callback of the host and makes
  no call of its own into the operating system.
\<close>

theorem error_parameter_discipline:
  "take 1 (events_since w (snd (run h hook se sys ic w))) = [Error_write ERROR_SUCCESS] \<and>
   (\<not> by_value ic \<longrightarrow>
      (\<forall>v. Error_write v \<in> set (tl (events_since w (snd (run h hook se sys ic w)))) \<longrightarrow>
           fst (run h hook se sys ic w)) \<and>
      (\<not> fst (run h hook se sys ic w) \<longrightarrow>
         error (snd (run h hook se sys ic w)) = ERROR_SUCCESS)) \<and>
   (by_value ic \<longrightarrow>
      (\<forall>v. Error_write v \<in> set (tl (events_since w (snd (run h hook se sys ic w)))) \<longrightarrow>
           failure_value_returned h sys ic w) \<and>
      (\<not> failure_value_returned h sys ic w \<longrightarrow>
         error (snd (run h hook se sys ic w)) = ERROR_SUCCESS) \<and>
      (failure_value_returned h sys ic w \<longrightarrow>
         error (snd (run h hook se sys ic w)) = GetLastError (snd (run h hook se sys ic w))))"
proof -
  have plain: "disciplined w (run h hook se sys ic w)" if "\<not> by_value ic"
    using that
    by (cases ic)
       (simp_all add: disc_CreateDirectory disc_RemoveDirectory disc_GetFileSystemEntries
        disc_GetCurrentDirectory disc_SetCurrentDirectory disc_MoveFile disc_ReplaceFile
        disc_CopyFile disc_DeleteFile disc_GetFileAttributes disc_SetFileAttributes
        disc_GetFileStat disc_Open disc_Close disc_Read disc_Write
        disc_Flush disc_SetLength disc_SetFileTime disc_Lock disc_Unlock
        del: run.simps)
  have valued: "stored_by_value w (failure_value_returned h sys ic w)
      (snd (run h hook se sys ic w))" if "by_value ic"
    using that
    by (cases ic)
       (simp_all add: value_Seek value_GetLength value_GetFileType
        del: run.simps failure_value_returned.simps)
  show ?thesis
  proof (cases "by_value ic")
    case True
    then show ?thesis
      using valued unfolding stored_by_value_def by blast
  next
    case False
    then show ?thesis
      using plain unfolding disciplined_def by blast
  qed
qed

theorem error_parameter_discipline_witness:
  "Error_write 5 \<in> set (tl (events_since fresh_world
      (snd (run sdk None sample_strings (failing_at 0) (Op_CreateDirectory sample_dir)
              fresh_world)))) \<and>
   fst (run sdk None sample_strings (failing_at 0) (Op_CreateDirectory sample_dir) fresh_world) \<and>
   \<not> fst (run sdk None sample_strings accepting (Op_Lock 3 0 10) fresh_world) \<and>
   error (snd (run sdk None sample_strings accepting (Op_Lock 3 0 10) fresh_world)) = 0 \<and>
   take 1 (events_since fresh_world
      (snd (run sdk None sample_strings accepting (Op_Lock 3 0 10) fresh_world))) =
     [Error_write 0] \<and>
   failure_value_returned sdk at_4g_minus_1 (Op_Seek 3 0xFFFFFFFF (sdk SeekOrigin_Begin))
     stale_world \<and>
   error (snd (run sdk None sample_strings at_4g_minus_1
                 (Op_Seek 3 0xFFFFFFFF (sdk SeekOrigin_Begin)) stale_world)) =
     GetLastError (snd (run sdk None sample_strings at_4g_minus_1
                 (Op_Seek 3 0xFFFFFFFF (sdk SeekOrigin_Begin)) stale_world)) \<and>
   \<not> failure_value_returned sdk accepting (Op_Seek 3 0x20 (sdk SeekOrigin_Begin)) fresh_world \<and>
   error (snd (run sdk None sample_strings accepting
                 (Op_Seek 3 0x20 (sdk SeekOrigin_Begin)) fresh_world)) = 0"
proof -
  have stored: "Error_write 5 \<in> set (tl (events_since fresh_world
      (snd (run sdk None sample_strings (failing_at 0) (Op_CreateDirectory sample_dir)
              fresh_world))))"
    by (simp add: ves_icall_System_IO_MonoIO_CreateDirectory_def Let_def split_def world_simps
        failing_at_def failed_reply_def fresh_world_def)
  have quiet: "\<not> fst (run sdk None sample_strings accepting (Op_Lock 3 0 10) fresh_world)"
    by (simp add: accepting_replies)
  have sentinel: "failure_value_returned sdk at_4g_minus_1
      (Op_Seek 3 0xFFFFFFFF (sdk SeekOrigin_Begin)) stale_world"
    by (simp add: ves_icall_System_IO_MonoIO_Seek_def Let_def split_def world_simps
        low_word_def at_4g_minus_1_def plain_reply_def INVALID_SET_FILE_POINTER_def)
  have other: "\<not> failure_value_returned sdk accepting
      (Op_Seek 3 0x20 (sdk SeekOrigin_Begin)) fresh_world"
    by (simp add: ves_icall_System_IO_MonoIO_Seek_def Let_def split_def world_simps
        low_word_def accepting_replies INVALID_SET_FILE_POINTER_def)
  note failing = error_parameter_discipline [of fresh_world sdk None sample_strings
      "failing_at 0" "Op_CreateDirectory sample_dir"]
  note passing = error_parameter_discipline [of fresh_world sdk None sample_strings
      accepting "Op_Lock 3 0 10"]
  note at_sentinel = error_parameter_discipline [of stale_world sdk None sample_strings
      at_4g_minus_1 "Op_Seek 3 0xFFFFFFFF (sdk SeekOrigin_Begin)"]
  note elsewhere = error_parameter_discipline [of fresh_world sdk None sample_strings
      accepting "Op_Seek 3 0x20 (sdk SeekOrigin_Begin)"]
  have "fst (run sdk None sample_strings (failing_at 0) (Op_CreateDirectory sample_dir)
      fresh_world)"
    using failing stored by auto
  moreover have "error (snd (run sdk None sample_strings accepting (Op_Lock 3 0 10)
      fresh_world)) = 0"
    using passing quiet by (simp add: ERROR_SUCCESS_def)
  moreover have "take 1 (events_since fresh_world
      (snd (run sdk None sample_strings accepting (Op_Lock 3 0 10) fresh_world))) =
     [Error_write 0]"
    using passing by (simp add: ERROR_SUCCESS_def)
  moreover have "error (snd (run sdk None sample_strings at_4g_minus_1
                 (Op_Seek 3 0xFFFFFFFF (sdk SeekOrigin_Begin)) stale_world)) =
     GetLastError (snd (run sdk None sample_strings at_4g_minus_1
                 (Op_Seek 3 0xFFFFFFFF (sdk SeekOrigin_Begin)) stale_world))"
    using at_sentinel sentinel by simp
  moreover have "error (snd (run sdk None sample_strings accepting
                 (Op_Seek 3 0x20 (sdk SeekOrigin_Begin)) fresh_world)) = 0"
    using elsewhere other by (simp add: ERROR_SUCCESS_def)
  ultimately show ?thesis using stored quiet sentinel other by blast
qed

text \<open>
  C9 as stated does not hold: a seek that succeeds and reports the position
  0xFFFFFFFF stores the last-error value, here 2 left by an earlier call, so the
  parameter does not hold \<^verbatim>\<open>ERROR_SUCCESS\<close> after an operation that did not fail.
\<close>

theorem seek_success_leaves_error:
  "succeeded (at_4g_minus_1 (SetFilePointer 3 0xFFFFFFFF 0 (sdk FILE_BEGIN))
     (set_error ERROR_SUCCESS stale_world)) \<and>
   \<not> fst (run sdk None sample_strings at_4g_minus_1
            (Op_Seek 3 0xFFFFFFFF (sdk SeekOrigin_Begin)) stale_world) \<and>
   fst (ves_icall_System_IO_MonoIO_Seek sdk at_4g_minus_1 3 0xFFFFFFFF (sdk SeekOrigin_Begin)
          stale_world) = 0xFFFFFFFF \<and>
   Error_write 2 \<in> set (tl (events_since stale_world
     (snd (run sdk None sample_strings at_4g_minus_1
             (Op_Seek 3 0xFFFFFFFF (sdk SeekOrigin_Begin)) stale_world)))) \<and>
   error (snd (run sdk None sample_strings at_4g_minus_1
                 (Op_Seek 3 0xFFFFFFFF (sdk SeekOrigin_Begin)) stale_world)) = 2 \<and>
   ERROR_SUCCESS = 0"
proof -
  have lo: "low_word 0xFFFFFFFF = 0xFFFFFFFF" and hi: "high_word 0xFFFFFFFF = 0"
    by (simp_all add: low_word_def high_word_def)
  have org: "convert_seekorigin sdk (sdk SeekOrigin_Begin) = sdk FILE_BEGIN"
    by (simp add: convert_seekorigin_def)
  show ?thesis
    by (simp add: ves_icall_System_IO_MonoIO_Seek_def Let_def split_def world_simps lo hi org
        at_4g_minus_1_def plain_reply_def stale_world_def INVALID_SET_FILE_POINTER_def
        ERROR_SUCCESS_def native_last_error_raw set_error_last_error_raw)
qed

end
